theory Spec2Isabelle
  imports Main "HOL-Library.Multiset"
begin

section \<open>Python text primitives\<close>

text \<open>
  The pipeline (\<^verbatim>\<open>data_transformer.py\<close>) works on Python \<^verbatim>\<open>str\<close> values. They are
  modelled as \<^typ>\<open>string\<close>, a character standing for the code point of its number
  (below 256; text with other characters is outside the model). White space is what
  \<^verbatim>\<open>str.isspace\<close> accepts in that range: the ASCII separators, \<^verbatim>\<open>U+0085\<close> and \<^verbatim>\<open>U+00A0\<close>.
  \<^verbatim>\<open>int\<close> and the pattern \<^verbatim>\<open>\d\<close> take the decimal digits; \<^verbatim>\<open>str.isdigit\<close> also accepts
  the superscripts \<^verbatim>\<open>U+00B2\<close>, \<^verbatim>\<open>U+00B3\<close> and \<^verbatim>\<open>U+00B9\<close>. \<open>upper\<close> folds the letters of
  ASCII and leaves every other character alone, which is \<^verbatim>\<open>str.upper\<close> on ASCII text; it
  is applied to score tokens. For the names of riders, which carry letters beyond ASCII,
  the case mapping is a parameter of the interpreter (\<open>str_upper\<close> below).
\<close>

definition py_isspace :: "char \<Rightarrow> bool" where
  "py_isspace c =
     (let n = (of_char c :: nat)
      in (9 \<le> n \<and> n \<le> 13) \<or> (28 \<le> n \<and> n \<le> 32) \<or> n = 133 \<or> n = 160)"

definition py_isdecimal_char :: "char \<Rightarrow> bool" where
  "py_isdecimal_char c = (let n = (of_char c :: nat) in 48 \<le> n \<and> n \<le> 57)"

definition py_isdigit_char :: "char \<Rightarrow> bool" where
  "py_isdigit_char c =
     (let n = (of_char c :: nat) in py_isdecimal_char c \<or> n = 178 \<or> n = 179 \<or> n = 185)"

definition upper_char :: "char \<Rightarrow> char" where
  "upper_char c = (let n = (of_char c :: nat) in if 97 \<le> n \<and> n \<le> 122 then char_of (n - 32) else c)"

text \<open>\<^verbatim>\<open>s.strip()\<close>, \<^verbatim>\<open>s.upper()\<close>, \<^verbatim>\<open>s.isdigit()\<close>.\<close>

definition strip :: "string \<Rightarrow> string" where
  "strip s = rev (dropWhile py_isspace (rev (dropWhile py_isspace s)))"

definition upper :: "string \<Rightarrow> string" where
  "upper s = map upper_char s"

definition isdigit :: "string \<Rightarrow> bool" where
  "isdigit s = (s \<noteq> [] \<and> list_all py_isdigit_char s)"

text \<open>
  \<^verbatim>\<open>s.replace(old, new)\<close> for a non-empty \<open>old\<close>: occurrences are replaced from the
  left and do not overlap. The counter \<open>k\<close> is the number of characters of the current
  occurrence that are still to be dropped.
\<close>

fun replace_from :: "string \<Rightarrow> string \<Rightarrow> nat \<Rightarrow> string \<Rightarrow> string" where
  "replace_from old new k [] = []"
| "replace_from old new k (c # cs) =
     (if 0 < k then replace_from old new (k - 1) cs
      else if old \<noteq> [] \<and> take (length old) (c # cs) = old
        then new @ replace_from old new (length old - 1) cs
      else c # replace_from old new 0 cs)"

definition replace :: "string \<Rightarrow> string \<Rightarrow> string \<Rightarrow> string" where
  "replace s old new = replace_from old new 0 s"

text \<open>
  \<^verbatim>\<open>int(s)\<close> in base ten: surrounding white space is ignored, one sign is allowed, and
  single underscores may separate digits. \<open>None\<close> stands for \<^verbatim>\<open>ValueError\<close>.
\<close>

fun int_body :: "string \<Rightarrow> bool" where
  "int_body [] = False"
| "int_body [c] = py_isdecimal_char c"
| "int_body (c # d # r) =
     (py_isdecimal_char c \<and> (if d = CHR ''_'' then int_body r else int_body (d # r)))"

definition digits_value :: "string \<Rightarrow> int" where
  "digits_value s = foldl (\<lambda>a c. 10 * a + (int (of_char c) - 48)) 0 (filter (\<lambda>c. c \<noteq> CHR ''_'') s)"

definition py_int :: "string \<Rightarrow> int option" where
  "py_int s =
     (case strip s of
        [] \<Rightarrow> None
      | c # r \<Rightarrow>
          if c = CHR ''-'' then (if int_body r then Some (- digits_value r) else None)
          else if c = CHR ''+'' then (if int_body r then Some (digits_value r) else None)
          else if int_body (c # r) then Some (digits_value (c # r)) else None)"

section \<open>Value parsers\<close>

text \<open>
  \<^verbatim>\<open>parse_score(score_raw)\<close>: the argument is \<^verbatim>\<open>None\<close> or a string; the result is the
  triple \<^verbatim>\<open>(points_numeric, with_bonus, accident_text)\<close>.
\<close>

definition apostrophe :: char where
  "apostrophe = CHR 0x27"

definition parse_score :: "string option \<Rightarrow> int \<times> bool \<times> string option" where
  "parse_score score_raw =
     (case score_raw of
        None \<Rightarrow> (0, False, None)
      | Some raw \<Rightarrow>
          if raw = [] \<or> strip raw = [] then (0, False, None)
          else
            let score_str = upper (strip raw);
                with_bonus = (apostrophe \<in> set score_str);
                score_str = (if with_bonus then replace score_str [apostrophe] [] else score_str)
            in (case py_int score_str of
                  Some n \<Rightarrow> (n, with_bonus, None)
                | None \<Rightarrow> (0, with_bonus, Some score_str)))"

text \<open>
  \<^verbatim>\<open>parse_telemetry_value(value_str)\<close>. The conversion \<^verbatim>\<open>float(...)\<close> is the
  interpreter's; it is the parameter \<open>to_float\<close>, with \<open>None\<close> for \<^verbatim>\<open>ValueError\<close>.
  The argument is \<open>None\<close> when the value is not a string.
\<close>

definition parse_telemetry_value :: "(string \<Rightarrow> 'f option) \<Rightarrow> string option \<Rightarrow> 'f option" where
  "parse_telemetry_value to_float value_str =
     (case value_str of
        None \<Rightarrow> None
      | Some s \<Rightarrow>
          if strip s = [] then None
          else to_float (strip (replace (replace (replace s '' s'' []) '' m'' []) '' km/h'' [])))"

section \<open>The fetch-batch tracker of the spider\<close>

text \<open>
  \<^verbatim>\<open>ScheduleSpider\<close> (\<^verbatim>\<open>ekstraliga_match.py\<close>) keeps two dictionaries: for every starting
  URL the set of match URLs whose detail request is outstanding
  (\<^verbatim>\<open>pending_match_requests\<close>) and its \<^verbatim>\<open>is_current_season\<close> flag (\<^verbatim>\<open>start_url_meta\<close>;
  the column may hold \<^verbatim>\<open>NULL\<close>, hence \<^typ>\<open>bool option\<close>). What the spider does to the
  outside is written to a journal, oldest entry first: the log lines of the completion
  logic and the \<^verbatim>\<open>UPDATE public.data_source SET is_scraped = true\<close> statements it sends.
\<close>

datatype entry =
    AllCompleted string          \<comment> \<open>the log line: all match requests completed for the starting URL\<close>
  | UpdateIssued string          \<comment> \<open>the \<^verbatim>\<open>UPDATE\<close> statement was executed for this URL\<close>
  | MarkedScraped string         \<comment> \<open>the statement and its commit went through\<close>
  | UpdateFailed string          \<comment> \<open>\<^verbatim>\<open>psycopg2.Error\<close> was caught\<close>
  | NoConnection string          \<comment> \<open>cursor or connection missing\<close>
  | SkippedCurrent string        \<comment> \<open>current season: no database update\<close>
  | UnknownSeason string         \<comment> \<open>the flag is \<^verbatim>\<open>None\<close>\<close>
  | NotPending string string     \<comment> \<open>\<^verbatim>\<open>KeyError\<close>: the match URL was not in the pending set\<close>
  | UntrackedStart string string \<comment> \<open>the starting URL has no pending set\<close>
  | MissingKeys                  \<comment> \<open>starting URL or match URL empty\<close>

record spider =
  pending_match_requests :: "string \<rightharpoonup> string set"
  start_url_meta :: "string \<rightharpoonup> bool option"
  cursor_conn :: bool
  is_scraped :: "string set"
  journal :: "entry list"

definition logged :: "entry \<Rightarrow> spider \<Rightarrow> spider" where
  "logged e st = st\<lparr>journal := journal st @ [e]\<rparr>"

text \<open>
  \<^verbatim>\<open>start_requests\<close>: every \<^verbatim>\<open>(url, is_current)\<close> pair fetched from \<^verbatim>\<open>data_source\<close> gets
  its flag stored and an empty pending set; nothing is queued without a cursor.
\<close>

fun start_requests_loop :: "(string \<times> bool option) list \<Rightarrow> spider \<Rightarrow> spider" where
  "start_requests_loop [] st = st"
| "start_requests_loop ((url, is_current) # rest) st =
     start_requests_loop rest
       (st\<lparr>start_url_meta := (start_url_meta st)(url \<mapsto> is_current),
           pending_match_requests := (pending_match_requests st)(url \<mapsto> {})\<rparr>)"

definition start_requests :: "(string \<times> bool option) list \<Rightarrow> spider \<Rightarrow> spider" where
  "start_requests urls_to_process st =
     (if \<not> cursor_conn st then st else start_requests_loop urls_to_process st)"

text \<open>
  The tracking statement of \<^verbatim>\<open>parse\<close> (lines 188 to 195): the match URL joins the pending
  set of its starting URL; a missing set is created.
\<close>

definition track :: "string \<Rightarrow> string \<Rightarrow> spider \<Rightarrow> spider" where
  "track starting_url match_url st =
     (case pending_match_requests st starting_url of
        Some s \<Rightarrow> st\<lparr>pending_match_requests :=
                      (pending_match_requests st)(starting_url \<mapsto> insert match_url s)\<rparr>
      | None \<Rightarrow> st\<lparr>pending_match_requests :=
                      (pending_match_requests st)(starting_url \<mapsto> {match_url})\<rparr>)"

text \<open>
  The link test of \<^verbatim>\<open>parse\<close>: \<^verbatim>\<open>re.compile(r'/se/mecz/\d{4}$').search(href)\<close>. The
  anchor \<^verbatim>\<open>$\<close> also matches before one final newline.
\<close>

definition ends_with_match :: "string \<Rightarrow> bool" where
  "ends_with_match h =
     (13 \<le> length h
      \<and> take 9 (drop (length h - 13) h) = ''/se/mecz/''
      \<and> list_all py_isdecimal_char (drop (length h - 4) h))"

definition is_match_link :: "string \<Rightarrow> bool" where
  "is_match_link h =
     (ends_with_match h \<or> (h \<noteq> [] \<and> last h = CHR 0x0A \<and> ends_with_match (butlast h)))"

text \<open>
  The answer of \<^verbatim>\<open>SELECT 1 FROM matches WHERE match_url = %s\<close>: a row, no row, or
  \<^verbatim>\<open>psycopg2.Error\<close> (then the link is scraped all the same).
\<close>

datatype existence = Exists | Missing | QueryError

text \<open>
  The loop of \<^verbatim>\<open>parse\<close> over the link containers of a schedule page, each given by its
  \<^verbatim>\<open>href\<close> attribute. \<open>urljoin\<close> is \<^verbatim>\<open>response.urljoin\<close> and \<open>has_match\<close> the store's
  answer. The result is the new state and the match URLs of the requests yielded.
\<close>

fun parse_loop ::
  "(string \<Rightarrow> string) \<Rightarrow> (string \<Rightarrow> existence) \<Rightarrow> string \<Rightarrow> string option list
     \<Rightarrow> spider \<Rightarrow> spider \<times> string list" where
  "parse_loop urljoin has_match starting_url [] st = (st, [])"
| "parse_loop urljoin has_match starting_url (href # rest) st =
     (case href of
        None \<Rightarrow> parse_loop urljoin has_match starting_url rest st
      | Some h \<Rightarrow>
          if h = [] \<or> \<not> is_match_link h then parse_loop urljoin has_match starting_url rest st
          else
            let match_url = urljoin h in
            if cursor_conn st \<and> has_match match_url = Exists
            then parse_loop urljoin has_match starting_url rest st
            else
              let (st', reqs) = parse_loop urljoin has_match starting_url rest
                                  (track starting_url match_url st)
              in (st', match_url # reqs))"

definition parse ::
  "(string \<Rightarrow> string) \<Rightarrow> (string \<Rightarrow> existence) \<Rightarrow> string option \<Rightarrow> string option list
     \<Rightarrow> spider \<Rightarrow> spider \<times> string list" where
  "parse urljoin has_match starting_url match_containers st =
     (case starting_url of
        None \<Rightarrow> (st, [])
      | Some u \<Rightarrow>
          if u = [] then (st, [])
          else if match_containers = [] then (st, [])
          else parse_loop urljoin has_match u match_containers st)"

text \<open>
  The \<^verbatim>\<open>finally\<close> block of \<^verbatim>\<open>parse_match_details\<close>. \<open>write_fails\<close> tells for which URL
  the \<^verbatim>\<open>UPDATE\<close> or its commit raises \<^verbatim>\<open>psycopg2.Error\<close>.
\<close>

definition mark_scraped :: "(string \<Rightarrow> bool) \<Rightarrow> string \<Rightarrow> spider \<Rightarrow> spider" where
  "mark_scraped write_fails starting_url st =
     (case (case start_url_meta st starting_url of None \<Rightarrow> None | Some f \<Rightarrow> f) of
        Some False \<Rightarrow>
          if cursor_conn st then
            (let st1 = logged (UpdateIssued starting_url) st in
             if write_fails starting_url then logged (UpdateFailed starting_url) st1
             else logged (MarkedScraped starting_url)
                    (st1\<lparr>is_scraped := insert starting_url (is_scraped st1)\<rparr>))
          else logged (NoConnection starting_url) st
      | Some True \<Rightarrow> logged (SkippedCurrent starting_url) st
      | None \<Rightarrow> logged (UnknownSeason starting_url) st)"

definition completion_check :: "(string \<Rightarrow> bool) \<Rightarrow> string \<Rightarrow> string \<Rightarrow> spider \<Rightarrow> spider" where
  "completion_check write_fails starting_url match_url st =
     (if starting_url \<noteq> [] \<and> match_url \<noteq> [] then
        (case pending_match_requests st starting_url of
           Some s \<Rightarrow>
             if match_url \<in> s then
               (let st1 = st\<lparr>pending_match_requests :=
                              (pending_match_requests st)(starting_url \<mapsto> s - {match_url})\<rparr>
                in if s - {match_url} = {}
                   then mark_scraped write_fails starting_url (logged (AllCompleted starting_url) st1)
                   else st1)
             else logged (NotPending starting_url match_url) st
         | None \<Rightarrow> logged (UntrackedStart starting_url match_url) st)
      else logged MissingKeys st)"

text \<open>
  \<^verbatim>\<open>parse_match_details\<close> as far as the tracker is concerned: without a starting URL it
  returns before the \<^verbatim>\<open>try\<close>; otherwise the \<^verbatim>\<open>finally\<close> block runs whether the scraping
  of the page (\<open>body_raised\<close>) succeeded or not.
\<close>

definition parse_match_details ::
  "(string \<Rightarrow> bool) \<Rightarrow> bool \<Rightarrow> string option \<Rightarrow> string \<Rightarrow> spider \<Rightarrow> spider" where
  "parse_match_details write_fails body_raised starting_url match_url st =
     (case starting_url of
        None \<Rightarrow> st
      | Some u \<Rightarrow> if u = [] then st else completion_check write_fails u match_url st)"

text \<open>
  A run of the crawl after \<^verbatim>\<open>start_requests\<close>: the engine pulls requests out of the
  \<^verbatim>\<open>parse\<close> generators (each pull runs one tracking statement) and calls
  \<^verbatim>\<open>parse_match_details\<close> for the responses, in some order.
\<close>

datatype event =
    Register string string
  | Complete bool string string


fun step :: "(string \<Rightarrow> bool) \<Rightarrow> event \<Rightarrow> spider \<Rightarrow> spider" where
  "step write_fails (Register b c) st = track b c st"
| "step write_fails (Complete r b c) st = parse_match_details write_fails r (Some b) c st"

fun run :: "(string \<Rightarrow> bool) \<Rightarrow> event list \<Rightarrow> spider \<Rightarrow> spider" where
  "run write_fails [] st = st"
| "run write_fails (e # es) st = run write_fails es (step write_fails e st)"

text \<open>How often the completion of a starting URL was announced, and how often a
  durable mark was sent for it.\<close>

definition closings :: "string \<Rightarrow> spider \<Rightarrow> nat" where
  "closings b st = count_list (journal st) (AllCompleted b)"

definition mark_writes :: "string \<Rightarrow> spider \<Rightarrow> nat" where
  "mark_writes b st = count_list (journal st) (UpdateIssued b)"

text \<open>The spider right after \<^verbatim>\<open>open_spider\<close> found a connection: nothing is tracked.\<close>

definition idle_spider :: spider where
  "idle_spider = \<lparr>pending_match_requests = Map.empty, start_url_meta = Map.empty,
     cursor_conn = True, is_scraped = {}, journal = []\<rparr>"

section \<open>Documents and the relational store\<close>

subsection \<open>JSON documents as Python values\<close>

text \<open>
  \<^verbatim>\<open>json.load\<close> yields \<^verbatim>\<open>None\<close>, booleans, numbers, strings, lists and dictionaries. A
  dictionary is the list of its items (keys distinct); numbers are integers here. The
  transformer treats a document dynamically, so every access can raise.
\<close>

datatype json =
    JNull
  | JBool bool
  | JNum int
  | JStr string
  | JArr "json list"
  | JObj "(string \<times> json) list"

datatype error =
    AttributeError       \<comment> \<open>a method of \<^verbatim>\<open>dict\<close> or \<^verbatim>\<open>str\<close> called on another type\<close>
  | TypeError            \<comment> \<open>iteration over a non-iterable, an unhashable key, \<^verbatim>\<open>strptime\<close> of a non-string\<close>
  | ValueError
  | DatabaseError        \<comment> \<open>\<^verbatim>\<open>psycopg2.Error\<close>: constraint violation, type mismatch, failed transaction\<close>
  | FileNotFoundError
  | JSONDecodeError

text \<open>Truth value of a Python object, as tested by \<^verbatim>\<open>if x:\<close>.\<close>

fun truthy :: "json \<Rightarrow> bool" where
  "truthy JNull = False"
| "truthy (JBool b) = b"
| "truthy (JNum n) = (n \<noteq> 0)"
| "truthy (JStr s) = (s \<noteq> [])"
| "truthy (JArr xs) = (xs \<noteq> [])"
| "truthy (JObj kvs) = (kvs \<noteq> [])"

text \<open>\<^verbatim>\<open>d.get(k, default)\<close> and \<^verbatim>\<open>d.get(k)\<close>.\<close>

definition get_default :: "json \<Rightarrow> string \<Rightarrow> json \<Rightarrow> error + json" where
  "get_default d k dflt =
     (case d of
        JObj kvs \<Rightarrow> Inr (case map_of kvs k of Some v \<Rightarrow> v | None \<Rightarrow> dflt)
      | _ \<Rightarrow> Inl AttributeError)"

definition get :: "json \<Rightarrow> string \<Rightarrow> error + json" where
  "get d k = get_default d k JNull"

text \<open>The receiver of a \<^verbatim>\<open>str\<close> method (\<^verbatim>\<open>strip\<close>, \<^verbatim>\<open>upper\<close>, \<^verbatim>\<open>isdigit\<close>, \<^verbatim>\<open>replace\<close>).\<close>

definition as_str :: "json \<Rightarrow> error + string" where
  "as_str v = (case v of JStr s \<Rightarrow> Inr s | _ \<Rightarrow> Inl AttributeError)"

text \<open>The elements of \<^verbatim>\<open>for x in v\<close>, for the values the transformer iterates over once
  they are known to be truthy: a list gives its elements; a string gives its characters
  and a dictionary its keys (strings both).\<close>

definition iterate :: "json \<Rightarrow> error + json list" where
  "iterate v =
     (case v of
        JArr xs \<Rightarrow> Inr xs
      | JStr s \<Rightarrow> Inr (map (\<lambda>c. JStr [c]) s)
      | JObj kvs \<Rightarrow> Inr (map (\<lambda>(k, x). JStr k) kvs)
      | _ \<Rightarrow> Inl TypeError)"

text \<open>A value usable as a dictionary key: lists and dictionaries are unhashable.\<close>

definition hashable :: "json \<Rightarrow> bool" where
  "hashable v = (case v of JArr xs \<Rightarrow> False | JObj kvs \<Rightarrow> False | _ \<Rightarrow> True)"

text \<open>
  A query parameter for a text column: a string or \<^verbatim>\<open>NULL\<close>. The model of the adapter
  is strict: a value of another type is rejected by the store.
\<close>

definition sql_text :: "json \<Rightarrow> error + string option" where
  "sql_text v =
     (case v of JNull \<Rightarrow> Inr None | JStr s \<Rightarrow> Inr (Some s) | _ \<Rightarrow> Inl DatabaseError)"

text \<open>
  \<^verbatim>\<open>int(d.get(k, 0)) if d.get(k, '').isdigit() else dflt\<close>, the pattern of every numeric
  field: a missing key gives \<open>dflt\<close>, a value that is not a string raises.
\<close>

definition int_field :: "json \<Rightarrow> string \<Rightarrow> 'a \<Rightarrow> (int \<Rightarrow> 'a) \<Rightarrow> error + 'a" where
  "int_field d k dflt wrap =
     (case get_default d k (JStr []) of
        Inl e \<Rightarrow> Inl e
      | Inr v \<Rightarrow>
          (case as_str v of
             Inl e \<Rightarrow> Inl e
           | Inr s \<Rightarrow>
               if isdigit s
               then (case py_int s of Some n \<Rightarrow> Inr (wrap n) | None \<Rightarrow> Inl ValueError)
               else Inr dflt))"

subsection \<open>Tables\<close>

text \<open>
  A table with a serial primary key and a uniqueness constraint on its natural key: rows
  are triples of identifier, key and remaining columns, in insertion order. The serial
  number last handed out is kept with the table; the first identifier is 1.
\<close>

type_synonym ident = nat

record ('k, 'v) table =
  rows :: "(ident \<times> 'k \<times> 'v) list"
  serial :: ident

definition empty_table :: "('k, 'v) table" where
  "empty_table = \<lparr>rows = [], serial = 0\<rparr>"

definition keys_of :: "('k, 'v) table \<Rightarrow> 'k list" where
  "keys_of t = map (\<lambda>(i, k, v). k) (rows t)"

text \<open>\<^verbatim>\<open>SELECT id FROM t WHERE key = %s\<close> followed by \<^verbatim>\<open>fetchone()\<close>.\<close>

definition select_id :: "'k \<Rightarrow> ('k, 'v) table \<Rightarrow> ident option" where
  "select_id k t = map_option fst (find (\<lambda>(i, k', v). k' = k) (rows t))"

definition select_row :: "'k \<Rightarrow> ('k, 'v) table \<Rightarrow> (ident \<times> 'v) option" where
  "select_row k t = map_option (\<lambda>(i, k', v). (i, v)) (find (\<lambda>(i, k', v). k' = k) (rows t))"

text \<open>\<^verbatim>\<open>INSERT ... ON CONFLICT (key) DO NOTHING RETURNING id\<close>: no row comes back on a
  conflict.\<close>

definition insert_do_nothing :: "'k \<Rightarrow> 'v \<Rightarrow> ('k, 'v) table \<Rightarrow> ident option \<times> ('k, 'v) table" where
  "insert_do_nothing k v t =
     (if k \<in> set (keys_of t) then (None, t)
      else (Some (Suc (serial t)),
            t\<lparr>rows := rows t @ [(Suc (serial t), k, v)], serial := Suc (serial t)\<rparr>))"

text \<open>\<^verbatim>\<open>INSERT ... ON CONFLICT (key) DO UPDATE SET\<close> every other column
  \<^verbatim>\<open>= EXCLUDED.\<close>column \<^verbatim>\<open>RETURNING id\<close>.\<close>

definition upsert :: "'k \<Rightarrow> 'v \<Rightarrow> ('k, 'v) table \<Rightarrow> ident \<times> ('k, 'v) table" where
  "upsert k v t =
     (case select_id k t of
        Some i \<Rightarrow> (i, t\<lparr>rows := map (\<lambda>(i', k', v'). if k' = k then (i', k', v) else (i', k', v'))
                                   (rows t)\<rparr>)
      | None \<Rightarrow> (Suc (serial t),
                 t\<lparr>rows := rows t @ [(Suc (serial t), k, v)], serial := Suc (serial t)\<rparr>))"

text \<open>
  \<^verbatim>\<open>execute_values\<close> with an upsert statement: one \<^verbatim>\<open>INSERT\<close> with all rows (a page
  holds 100 rows, more than a fixture has). The store refuses a statement that
  proposes two rows with the same key. The identifiers come back in the order of the
  rows.
\<close>

fun upsert_each :: "('k \<times> 'v) list \<Rightarrow> ('k, 'v) table \<Rightarrow> ident list \<times> ('k, 'v) table" where
  "upsert_each [] t = ([], t)"
| "upsert_each ((k, v) # rest) t =
     (let (i, t1) = upsert k v t; (ids, t2) = upsert_each rest t1 in (i # ids, t2))"

definition upsert_many ::
  "('k \<times> 'v) list \<Rightarrow> ('k, 'v) table \<Rightarrow> error + (ident list \<times> ('k, 'v) table)" where
  "upsert_many kvs t =
     (if distinct (map fst kvs) then Inr (upsert_each kvs t) else Inl DatabaseError)"

subsection \<open>The schema\<close>

text \<open>
  Modelled from the spec: the table declarations are not part of the sources. The
  conflict targets of the statements give the natural keys; the columns of a natural
  key do not take \<^verbatim>\<open>NULL\<close> (one row per match and team, per match, team and rider, and
  so on), the foreign keys of a match and all other columns do. \<open>'f\<close> is the type of
  floating-point numbers.
\<close>

record team_row =
  team_id :: ident
  team_code :: "string option"
  full_name :: "string option"
  team_arena_id :: "ident option"

record match_cols =
  source_system :: "string option"
  competition_id :: "ident option"
  round_type :: "string option"
  round_name :: "string option"
  match_datetime :: "string option"
  attendance :: "int option"
  referee_id :: "ident option"
  track_commissioner_id :: "ident option"
  arena_id :: "ident option"
  home_team_id :: "ident option"
  away_team_id :: "ident option"
  home_score :: int
  away_score :: int
  telemetry_data_status :: "string option"

record team_info_cols =
  match_specific_team_name :: "string option"
  manager_name :: "string option"
  coach_name :: "string option"
  head_of_team_name :: "string option"

record rider_stat_cols =
  rider_number_in_match :: "string option"
  total_sum_points :: "int option"
  total_bonus_points :: "int option"
  raw_scores_array :: "json list"

record heat_cols =
  heat_display_number :: string
  hometeam_heat_score :: "int option"
  awayteam_heat_score :: "int option"
  hometeam_current_match_score_after_heat :: "int option"
  awayteam_current_match_score_after_heat :: "int option"

record 'f participant_cols =
  rider_name :: string
  substituted_rider_name :: "string option"
  starting_gate :: "string option"
  helmet_color :: "string option"
  score_raw :: "string option"
  score :: int
  with_bonus :: bool
  accident :: "string option"
  with_warning :: bool
  lap_time_seconds :: "'f option"
  distance_meters :: "'f option"
  vmax_kmh :: "'f option"
  lap1_time_seconds :: "'f option"
  lap2_time_seconds :: "'f option"
  lap3_time_seconds :: "'f option"
  lap4_time_seconds :: "'f option"

text \<open>
  The database as one transaction sees it. \<open>names\<close> holds the tables with a single
  \<^verbatim>\<open>name\<close> column (\<^verbatim>\<open>arenas\<close>, \<^verbatim>\<open>competitions\<close>, \<^verbatim>\<open>referees\<close>, \<^verbatim>\<open>track_commissioners\<close>,
  \<^verbatim>\<open>riders\<close>) by table name. \<open>tx_failed\<close> is set once a statement of the transaction
  has failed: the store then refuses every further statement.
\<close>

record 'f database =
  names :: "string \<Rightarrow> (string, unit) table"
  teams :: "team_row list"
  teams_serial :: ident
  matches :: "(string, match_cols) table"
  match_team_info :: "(ident \<times> ident, team_info_cols) table"
  match_rider_stats :: "(ident \<times> ident \<times> ident, rider_stat_cols) table"
  heats :: "(ident \<times> int, heat_cols) table"
  heat_participants :: "(ident \<times> ident, 'f participant_cols) table"
  tx_failed :: bool

definition empty_database :: "'f database" where
  "empty_database =
     \<lparr>names = (\<lambda>t. empty_table), teams = [], teams_serial = 0, matches = empty_table,
      match_team_info = empty_table, match_rider_stats = empty_table, heats = empty_table,
      heat_participants = empty_table, tx_failed = False\<rparr>"

subsection \<open>Statements\<close>

text \<open>
  A statement runs on the database and gives a result or raises. Python code between
  statements can raise as well.
\<close>

type_synonym ('a, 's) act = "'s \<Rightarrow> error + ('a \<times> 's)"

definition ret :: "'a \<Rightarrow> ('a, 's) act" where
  "ret x = (\<lambda>s. Inr (x, s))"

definition raise :: "error \<Rightarrow> ('a, 's) act" where
  "raise e = (\<lambda>s. Inl e)"

definition bnd :: "('a, 's) act \<Rightarrow> ('a \<Rightarrow> ('b, 's) act) \<Rightarrow> ('b, 's) act" where
  "bnd m f = (\<lambda>s. case m s of Inl e \<Rightarrow> Inl e | Inr (x, s') \<Rightarrow> f x s')"

definition lift :: "error + 'a \<Rightarrow> ('a, 's) act" where
  "lift r = (\<lambda>s. case r of Inl e \<Rightarrow> Inl e | Inr x \<Rightarrow> Inr (x, s))"

text \<open>Every statement is refused inside a failed transaction.\<close>

definition stmt :: "('a, 'f database) act \<Rightarrow> ('a, 'f database) act" where
  "stmt m = (\<lambda>db. if tx_failed db then Inl DatabaseError else m db)"

text \<open>A key column given \<^verbatim>\<open>NULL\<close> violates its constraint.\<close>

definition not_null :: "'a option \<Rightarrow> ('a, 's) act" where
  "not_null x = (case x of None \<Rightarrow> raise DatabaseError | Some y \<Rightarrow> ret y)"

text \<open>
  The cursor as \<^verbatim>\<open>get_or_create_id\<close> uses it: the \<^verbatim>\<open>SELECT\<close> by value and the
  \<^verbatim>\<open>INSERT ... ON CONFLICT DO NOTHING RETURNING\<close>, each given table, column and value.
  An error of the \<^verbatim>\<open>INSERT\<close> is an \<open>Inl\<close>.
\<close>

record 'db cursor =
  execute_select :: "string \<Rightarrow> string \<Rightarrow> string \<Rightarrow> (ident option, 'db) act"
  execute_insert :: "string \<Rightarrow> string \<Rightarrow> string \<Rightarrow> 'db \<Rightarrow> error + (ident option \<times> 'db)"
  mark_failed :: "'db \<Rightarrow> 'db"

text \<open>The cursor of a session that is alone on the store.\<close>

definition pg_cursor :: "'f database cursor" where
  "pg_cursor =
     \<lparr>execute_select = (\<lambda>tname col v. stmt (\<lambda>db. Inr (select_id v (names db tname), db))),
      execute_insert = (\<lambda>tname col v. stmt (\<lambda>db.
         let (r, t) = insert_do_nothing v () (names db tname)
         in Inr (r, db\<lparr>names := (names db)(tname := t)\<rparr>))),
      mark_failed = (\<lambda>db. db\<lparr>tx_failed := True\<rparr>)\<rparr>"

text \<open>The statements on \<^verbatim>\<open>teams\<close>.\<close>

definition select_team_by_code :: "string \<Rightarrow> (ident option, 'f database) act" where
  "select_team_by_code code =
     stmt (\<lambda>db. Inr (map_option team_id (find (\<lambda>r. team_code r = Some code) (teams db)), db))"

definition select_team_by_name :: "string \<Rightarrow> (ident option, 'f database) act" where
  "select_team_by_name name =
     stmt (\<lambda>db. Inr (map_option team_id (find (\<lambda>r. full_name r = Some name) (teams db)), db))"

definition coalesce :: "'a option \<Rightarrow> 'a option \<Rightarrow> 'a option" where
  "coalesce x y = (case x of Some a \<Rightarrow> Some a | None \<Rightarrow> y)"

text \<open>\<^verbatim>\<open>UPDATE teams SET full_name = COALESCE(full_name, %s)\<close>, for the home team also
  \<^verbatim>\<open>arena_id = COALESCE(arena_id, %s)\<close>, \<^verbatim>\<open>WHERE team_id = %s\<close>. \<open>arena\<close> is \<open>None\<close> for the
  statement of the away team, which leaves the column alone.\<close>

definition update_team_name ::
  "string option \<Rightarrow> ident option option \<Rightarrow> ident \<Rightarrow> (unit, 'f database) act" where
  "update_team_name name arena tid =
     stmt (\<lambda>db. Inr ((), db\<lparr>teams := map (\<lambda>r. if team_id r = tid
          then r\<lparr>full_name := coalesce (full_name r) name,
                 team_arena_id := (case arena of None \<Rightarrow> team_arena_id r
                                   | Some a \<Rightarrow> coalesce (team_arena_id r) a)\<rparr>
          else r) (teams db)\<rparr>))"

text \<open>\<^verbatim>\<open>UPDATE teams SET team_code = COALESCE(team_code, %s)\<close> and the arena as above. The
  code is unique: giving a row a code that another row has fails.\<close>

definition update_team_code ::
  "string option \<Rightarrow> ident option option \<Rightarrow> ident \<Rightarrow> (unit, 'f database) act" where
  "update_team_code code arena tid =
     stmt (\<lambda>db.
       if \<exists>r \<in> set (teams db). team_id r = tid \<and> team_code r = None \<and> code \<noteq> None
            \<and> (\<exists>r' \<in> set (teams db). team_id r' \<noteq> tid \<and> team_code r' = code)
       then Inl DatabaseError
       else Inr ((), db\<lparr>teams := map (\<lambda>r. if team_id r = tid
          then r\<lparr>team_code := coalesce (team_code r) code,
                 team_arena_id := (case arena of None \<Rightarrow> team_arena_id r
                                   | Some a \<Rightarrow> coalesce (team_arena_id r) a)\<rparr>
          else r) (teams db)\<rparr>))"

text \<open>\<^verbatim>\<open>INSERT INTO teams (team_code, full_name[, arena_id]) ... ON CONFLICT (team_code)
  DO NOTHING RETURNING team_id\<close>.\<close>

definition insert_team ::
  "string option \<Rightarrow> string option \<Rightarrow> ident option \<Rightarrow> (ident option, 'f database) act" where
  "insert_team code name arena =
     stmt (\<lambda>db.
       if code \<noteq> None \<and> (\<exists>r \<in> set (teams db). team_code r = code) then Inr (None, db)
       else Inr (Some (Suc (teams_serial db)),
                 db\<lparr>teams := teams db @ [\<lparr>team_id = Suc (teams_serial db), team_code = code,
                                           full_name = name, team_arena_id = arena\<rparr>],
                    teams_serial := Suc (teams_serial db)\<rparr>))"

text \<open>The upserts of the five match tables.\<close>

definition upsert_match :: "string option \<Rightarrow> match_cols \<Rightarrow> (ident, 'f database) act" where
  "upsert_match url cols =
     stmt (bnd (not_null url) (\<lambda>u db.
       let (i, t) = upsert u cols (matches db) in Inr (i, db\<lparr>matches := t\<rparr>)))"

definition key2 :: "ident \<times> ident option \<Rightarrow> (ident \<times> ident) option" where
  "key2 k = (case k of (a, None) \<Rightarrow> None | (a, Some b) \<Rightarrow> Some (a, b))"

definition key3 :: "ident \<times> ident option \<times> ident \<Rightarrow> (ident \<times> ident \<times> ident) option" where
  "key3 k = (case k of (a, None, c) \<Rightarrow> None | (a, Some b, c) \<Rightarrow> Some (a, b, c))"

text \<open>The rows of a statement with their keys checked for \<^verbatim>\<open>NULL\<close>.\<close>

fun checked_rows :: "('j \<Rightarrow> 'k option) \<Rightarrow> ('j \<times> 'v) list \<Rightarrow> error + ('k \<times> 'v) list" where
  "checked_rows chk [] = Inr []"
| "checked_rows chk ((j, v) # rest) =
     (case chk j of
        None \<Rightarrow> Inl DatabaseError
      | Some k \<Rightarrow> (case checked_rows chk rest of Inl e \<Rightarrow> Inl e | Inr kvs \<Rightarrow> Inr ((k, v) # kvs)))"

definition upsert_team_info ::
  "((ident \<times> ident option) \<times> team_info_cols) list \<Rightarrow> (unit, 'f database) act" where
  "upsert_team_info data =
     stmt (bnd (lift (checked_rows key2 data)) (\<lambda>kvs db.
       case upsert_many kvs (match_team_info db) of
         Inl e \<Rightarrow> Inl e
       | Inr (ids, t) \<Rightarrow> Inr ((), db\<lparr>match_team_info := t\<rparr>)))"

definition upsert_rider_stats ::
  "((ident \<times> ident option \<times> ident) \<times> rider_stat_cols) list
     \<Rightarrow> ((ident \<times> ident \<times> ident) list, 'f database) act" where
  "upsert_rider_stats data =
     stmt (bnd (lift (checked_rows key3 data)) (\<lambda>kvs db.
       case upsert_many kvs (match_rider_stats db) of
         Inl e \<Rightarrow> Inl e
       | Inr (ids, t) \<Rightarrow>
           Inr (map (\<lambda>(i, ((m, tm, r), v)). (i, m, r)) (zip ids kvs),
                db\<lparr>match_rider_stats := t\<rparr>)))"

definition upsert_heat :: "ident \<times> int \<Rightarrow> heat_cols \<Rightarrow> (ident, 'f database) act" where
  "upsert_heat k cols =
     stmt (\<lambda>db. let (i, t) = upsert k cols (heats db) in Inr (i, db\<lparr>heats := t\<rparr>))"

definition upsert_participants ::
  "((ident \<times> ident) \<times> 'f participant_cols) list \<Rightarrow> (unit, 'f database) act" where
  "upsert_participants kvs =
     stmt (\<lambda>db.
       case upsert_many kvs (heat_participants db) of
         Inl e \<Rightarrow> Inl e
       | Inr (ids, t) \<Rightarrow> Inr ((), db\<lparr>heat_participants := t\<rparr>))"

section \<open>The transformer\<close>

subsection \<open>Resolving natural keys\<close>

text \<open>
  \<^verbatim>\<open>get_or_create_id(cursor, table_name, column_name, value, returning_id_column)\<close>. The
  first \<^verbatim>\<open>SELECT\<close> is outside the \<^verbatim>\<open>try\<close>: its error propagates. An error of the
  \<^verbatim>\<open>INSERT\<close> or of the second \<^verbatim>\<open>SELECT\<close> is caught and gives \<^verbatim>\<open>None\<close>; the transaction
  is then a failed one. A value that is neither \<^verbatim>\<open>None\<close> nor a string is refused by the
  first \<^verbatim>\<open>SELECT\<close>.
\<close>

definition get_or_create_id ::
  "'db cursor \<Rightarrow> string \<Rightarrow> string \<Rightarrow> json \<Rightarrow> string \<Rightarrow> (ident option, 'db) act" where
  "get_or_create_id cursor table_name column_name value returning_id_column =
     (case value of
        JNull \<Rightarrow> ret None
      | JStr s \<Rightarrow>
          if strip s = [] then ret None
          else bnd (execute_select cursor table_name column_name s) (\<lambda>result.
            case result of
              Some i \<Rightarrow> ret (Some i)
            | None \<Rightarrow> (\<lambda>db.
                case execute_insert cursor table_name column_name s db of
                  Inl e \<Rightarrow> Inr (None, mark_failed cursor db)
                | Inr (Some i, db') \<Rightarrow> Inr (Some i, db')
                | Inr (None, db') \<Rightarrow>
                    (case execute_select cursor table_name column_name s db' of
                       Inl e \<Rightarrow> Inr (None, mark_failed cursor db')
                     | Inr (r, db'') \<Rightarrow> Inr (r, db''))))
      | _ \<Rightarrow> raise DatabaseError)"

text \<open>\<^verbatim>\<open>if rider_id:\<close> an identifier counts when it is there and not zero.\<close>

definition is_id :: "ident option \<Rightarrow> bool" where
  "is_id x = (case x of None \<Rightarrow> False | Some i \<Rightarrow> i \<noteq> 0)"

text \<open>Sequencing of Python code that can raise.\<close>

definition seq :: "error + 'a \<Rightarrow> ('a \<Rightarrow> error + 'b) \<Rightarrow> error + 'b" where
  "seq r f = (case r of Inl e \<Rightarrow> Inl e | Inr x \<Rightarrow> f x)"

text \<open>A \<^verbatim>\<open>for\<close> loop whose body updates an accumulator and may run statements.\<close>

fun for_each :: "('x \<Rightarrow> 'a \<Rightarrow> ('a, 's) act) \<Rightarrow> 'x list \<Rightarrow> 'a \<Rightarrow> ('a, 's) act" where
  "for_each body [] a = ret a"
| "for_each body (x # xs) a =
     (\<lambda>s. case body x a s of Inl e \<Rightarrow> Inl e | Inr (a', s') \<Rightarrow> for_each body xs a' s')"

text \<open>A \<^verbatim>\<open>for\<close> loop that appends at most one row per element to a list.\<close>

fun collect :: "('x \<Rightarrow> error + 'y option) \<Rightarrow> 'x list \<Rightarrow> error + 'y list" where
  "collect f [] = Inr []"
| "collect f (x # xs) =
     (case f x of
        Inl e \<Rightarrow> Inl e
      | Inr r \<Rightarrow>
          (case collect f xs of
             Inl e \<Rightarrow> Inl e
           | Inr ys \<Rightarrow> Inr (case r of None \<Rightarrow> ys | Some y \<Rightarrow> y # ys)))"

text \<open>
  The blocks "Process Home Team" and "Process Away Team". They differ in the arena:
  the home team's statements also write \<^verbatim>\<open>arena_id\<close> (\<open>arena = Some arena_id\<close>), the away
  team's do not (\<open>arena = None\<close>).
\<close>

definition resolve_team ::
  "json \<Rightarrow> json \<Rightarrow> ident option option \<Rightarrow> (ident option, 'f database) act" where
  "resolve_team code name arena =
     bnd (if truthy code
          then bnd (lift (sql_text code)) (\<lambda>c.
               case c of
                 None \<Rightarrow> ret None
               | Some cs \<Rightarrow>
                   bnd (select_team_by_code cs) (\<lambda>result.
                   case result of
                     None \<Rightarrow> ret None
                   | Some tid \<Rightarrow>
                       bnd (lift (sql_text name)) (\<lambda>n.
                       bnd (update_team_name n arena tid) (\<lambda>u. ret (Some tid)))))
          else ret None) (\<lambda>by_code.
     bnd (if by_code = None \<and> truthy name
          then bnd (lift (sql_text name)) (\<lambda>n.
               case n of
                 None \<Rightarrow> ret None
               | Some ns \<Rightarrow>
                   bnd (select_team_by_name ns) (\<lambda>result.
                   case result of
                     None \<Rightarrow> ret None
                   | Some tid \<Rightarrow>
                       bnd (lift (sql_text code)) (\<lambda>c.
                       bnd (update_team_code c arena tid) (\<lambda>u. ret (Some tid)))))
          else ret by_code) (\<lambda>found.
     if found = None then
       (if truthy code \<or> truthy name
        then bnd (lift (sql_text code)) (\<lambda>c.
             bnd (lift (sql_text name)) (\<lambda>n.
             bnd (insert_team c n (case arena of None \<Rightarrow> None | Some a \<Rightarrow> a)) (\<lambda>inserted.
             case inserted of
               Some i \<Rightarrow> ret (Some i)
             | None \<Rightarrow>
                 (case c of
                    Some cs \<Rightarrow> if truthy code then select_team_by_code cs else ret None
                  | None \<Rightarrow> ret None))))
        else ret None)
     else ret found))"

subsection \<open>The rows of one document\<close>

text \<open>What the interpreter and its libraries supply: \<^verbatim>\<open>datetime.strptime\<close> with the
  format of the site (\<open>None\<close> for \<^verbatim>\<open>ValueError\<close>), \<^verbatim>\<open>json.dumps\<close>, \<^verbatim>\<open>float\<close>, and
  \<^verbatim>\<open>str.upper\<close> with the case mapping of Unicode, as it is applied to names.\<close>

record 'f env =
  strptime :: "string \<Rightarrow> string option"
  dumps :: "json \<Rightarrow> string"
  to_float :: "string \<Rightarrow> 'f option"
  str_upper :: "string \<Rightarrow> string"

text \<open>\<^verbatim>\<open>rider_name_to_id.get(rider_name)\<close>: an unhashable key raises.\<close>

definition lookup_name :: "(string \<rightharpoonup> ident) \<Rightarrow> json \<Rightarrow> error + ident option" where
  "lookup_name m v =
     (if \<not> hashable v then Inl TypeError
      else Inr (case v of JStr s \<Rightarrow> m s | _ \<Rightarrow> None))"

text \<open>The riders a team block adds to \<^verbatim>\<open>all_riders_in_match\<close>.\<close>

definition team_riders :: "json \<Rightarrow> string \<Rightarrow> error + json list" where
  "team_riders match_data team =
     seq (get_default match_data team (JObj [])) (\<lambda>t.
     seq (get t ''riders'') (\<lambda>rs.
     if truthy rs then iterate rs else Inr []))"

text \<open>The body of the loop that fills \<^verbatim>\<open>rider_name_to_id\<close>.\<close>

definition resolve_rider ::
  "'db cursor \<Rightarrow> json \<Rightarrow> (string \<rightharpoonup> ident) \<Rightarrow> (string \<rightharpoonup> ident, 'db) act" where
  "resolve_rider cursor rider_data rider_name_to_id =
     bnd (lift (get rider_data ''name'')) (\<lambda>name.
     if truthy name then
       bnd (lift (as_str name)) (\<lambda>s.
       if strip s \<noteq> [] then
         bnd (get_or_create_id cursor ''riders'' ''name'' name ''rider_id'') (\<lambda>rider_id.
         ret (case rider_id of
                Some i \<Rightarrow> if i \<noteq> 0 then rider_name_to_id(s \<mapsto> i) else rider_name_to_id
              | None \<Rightarrow> rider_name_to_id))
       else ret rider_name_to_id)
     else ret rider_name_to_id)"

text \<open>The values of the match row.\<close>

definition parse_match_date :: "'f env \<Rightarrow> json \<Rightarrow> error + string option" where
  "parse_match_date env match_data =
     seq (get match_data ''match_date'') (\<lambda>v.
     if truthy v then (case v of JStr s \<Rightarrow> Inr (strptime env s) | _ \<Rightarrow> Inl TypeError)
     else Inr None)"

definition parse_attendance :: "json \<Rightarrow> error + int option" where
  "parse_attendance match_data =
     seq (get match_data ''attendance_summary'') (\<lambda>v.
     if truthy v then
       seq (as_str v) (\<lambda>s.
       if isdigit s then (case py_int s of Some n \<Rightarrow> Inr (Some n) | None \<Rightarrow> Inl ValueError)
       else Inr None)
     else Inr None)"

definition telemetry_status :: "'f env \<Rightarrow> json \<Rightarrow> error + string option" where
  "telemetry_status env v =
     (case v of
        JArr xs \<Rightarrow> Inr (Some (dumps env v))
      | JObj kvs \<Rightarrow> Inr (Some (dumps env v))
      | _ \<Rightarrow> sql_text v)"

definition text_field :: "json \<Rightarrow> string \<Rightarrow> error + string option" where
  "text_field d k = seq (get d k) sql_text"

definition match_row ::
  "'f env \<Rightarrow> json \<Rightarrow> ident option \<Rightarrow> ident option \<Rightarrow> ident option \<Rightarrow> ident option
     \<Rightarrow> ident option \<Rightarrow> ident option \<Rightarrow> error + (string option \<times> match_cols)" where
  "match_row env match_data competition referee commissioner arena home away =
     seq (parse_match_date env match_data) (\<lambda>datetime.
     seq (parse_attendance match_data) (\<lambda>att.
     seq (text_field match_data ''match_url'') (\<lambda>url.
     seq (text_field match_data ''source'') (\<lambda>src.
     seq (text_field match_data ''round_type'') (\<lambda>rtype.
     seq (text_field match_data ''round'') (\<lambda>rname.
     seq (int_field match_data ''home_score_details'' 0 (\<lambda>n. n)) (\<lambda>hs.
     seq (int_field match_data ''away_score_details'' 0 (\<lambda>n. n)) (\<lambda>as.
     seq (seq (get match_data ''telemetry_data'') (telemetry_status env)) (\<lambda>tele.
     Inr (url,
          \<lparr>source_system = src, competition_id = competition, round_type = rtype,
           round_name = rname, match_datetime = datetime, attendance = att,
           referee_id = referee, track_commissioner_id = commissioner, arena_id = arena,
           home_team_id = home, away_team_id = away, home_score = hs, away_score = as,
           telemetry_data_status = tele\<rparr>))))))))))"

text \<open>The tuple appended to \<^verbatim>\<open>match_team_info_data\<close> for a team block that is there.\<close>

definition team_info_row ::
  "json \<Rightarrow> string \<Rightarrow> ident \<Rightarrow> ident option
     \<Rightarrow> error + ((ident \<times> ident option) \<times> team_info_cols) option" where
  "team_info_row match_data team match_id tid =
     seq (get match_data team) (\<lambda>team_data.
     if truthy team_data then
       seq (text_field team_data ''team_name'') (\<lambda>n.
       seq (text_field team_data ''manager'') (\<lambda>m.
       seq (text_field team_data ''coach'') (\<lambda>c.
       seq (text_field team_data ''head_of_team'') (\<lambda>h.
       Inr (Some ((match_id, tid),
              \<lparr>match_specific_team_name = n, manager_name = m, coach_name = c,
               head_of_team_name = h\<rparr>))))))
     else Inr None)"

text \<open>\<^verbatim>\<open>process_team_rider_stats(team_data, team_id)\<close>: the tuples it appends to
  \<^verbatim>\<open>match_rider_stats_data\<close>.\<close>

definition rider_stat_row ::
  "(string \<rightharpoonup> ident) \<Rightarrow> ident \<Rightarrow> ident option \<Rightarrow> json
     \<Rightarrow> error + ((ident \<times> ident option \<times> ident) \<times> rider_stat_cols) option" where
  "rider_stat_row rider_name_to_id match_id tid rider_data =
     seq (get rider_data ''name'') (\<lambda>name.
     seq (lookup_name rider_name_to_id name) (\<lambda>rider_id.
     case rider_id of
       None \<Rightarrow> Inr None
     | Some rid \<Rightarrow>
         if rid = 0 then Inr None
         else
           seq (text_field rider_data ''number'') (\<lambda>rider_number.
           seq (get rider_data ''scores'') (\<lambda>scores_raw.
           seq (int_field rider_data ''sum'' None Some) (\<lambda>total_sum.
           seq (int_field rider_data ''bonus'' None Some) (\<lambda>bonus_sum.
           Inr (Some ((match_id, tid, rid),
                  \<lparr>rider_number_in_match = rider_number, total_sum_points = total_sum,
                   total_bonus_points = bonus_sum,
                   raw_scores_array = (case scores_raw of JArr xs \<Rightarrow> xs | _ \<Rightarrow> [])\<rparr>))))))))"

definition process_team_rider_stats ::
  "(string \<rightharpoonup> ident) \<Rightarrow> ident \<Rightarrow> json \<Rightarrow> ident option
     \<Rightarrow> error + ((ident \<times> ident option \<times> ident) \<times> rider_stat_cols) list" where
  "process_team_rider_stats rider_name_to_id match_id team_data tid =
     (if truthy team_data then
        seq (get team_data ''riders'') (\<lambda>rs.
        if truthy rs then
          seq (iterate rs) (collect (rider_stat_row rider_name_to_id match_id tid))
        else Inr [])
      else Inr [])"

text \<open>\<^verbatim>\<open>rider_match_stat_id_map\<close> after the loop over the returned rows.\<close>

fun stat_id_map ::
  "(ident \<times> ident \<times> ident) list \<Rightarrow> (ident \<times> ident \<rightharpoonup> ident) \<Rightarrow> (ident \<times> ident \<rightharpoonup> ident)" where
  "stat_id_map [] m = m"
| "stat_id_map ((stat_id, mid, rid) # rest) m = stat_id_map rest (m((mid, rid) \<mapsto> stat_id))"

subsection \<open>Telemetry of a heat participant\<close>

text \<open>The search for the rider's summary in the flat telemetry list: the first entry
  whose \<^verbatim>\<open>rider_name\<close>, uppercased, equals the uppercased name of the participant
  (\<^verbatim>\<open>rider_name_upper\<close>, which is \<^verbatim>\<open>None\<close> for an empty name and then equals none). \<open>up\<close>
  is \<^verbatim>\<open>str.upper\<close>.\<close>

fun find_summary ::
  "(string \<Rightarrow> string) \<Rightarrow> string option \<Rightarrow> json list \<Rightarrow> error + json option" where
  "find_summary up rider_name_upper [] = Inr None"
| "find_summary up rider_name_upper (t # ts) =
     (case seq (get_default t ''rider_name'' (JStr [])) as_str of
        Inl e \<Rightarrow> Inl e
      | Inr s \<Rightarrow>
          if Some (up s) = rider_name_upper then Inr (Some t)
          else find_summary up rider_name_upper ts)"

text \<open>The search for the heat in the rider's \<^verbatim>\<open>detailed_telemetry\<close>: the first entry
  whose \<^verbatim>\<open>heat_number\<close> equals the heat's label (\<^verbatim>\<open>heat_display_number\<close>) once \<^verbatim>\<open>replace('.', '')\<close> is applied to
  both.\<close>

fun find_heat_detail :: "string \<Rightarrow> json list \<Rightarrow> error + json option" where
  "find_heat_detail heat_label [] = Inr None"
| "find_heat_detail heat_label (t # ts) =
     (case seq (get_default t ''heat_number'' (JStr [])) as_str of
        Inl e \<Rightarrow> Inl e
      | Inr s \<Rightarrow>
          if replace s ''.'' [] = replace heat_label ''.'' [] then Inr (Some t)
          else find_heat_detail heat_label ts)"

definition participant_telemetry_details ::
  "'f env \<Rightarrow> json list \<Rightarrow> string \<Rightarrow> string \<Rightarrow> error + json option" where
  "participant_telemetry_details env all_rider_telemetry_list name heat_label =
     seq (find_summary (str_upper env)
            (if name \<noteq> [] then Some (str_upper env name) else None)
            all_rider_telemetry_list) (\<lambda>summary.
     case summary of
       None \<Rightarrow> Inr None
     | Some rider_telemetry_summary \<Rightarrow>
         if truthy rider_telemetry_summary then
           seq (get rider_telemetry_summary ''detailed_telemetry'') (\<lambda>d.
           case d of
             JArr details \<Rightarrow> find_heat_detail heat_label details
           | _ \<Rightarrow> Inr None)
         else Inr None)"

definition telemetry_value :: "'f env \<Rightarrow> json option \<Rightarrow> string \<Rightarrow> error + 'f option" where
  "telemetry_value env details k =
     (case details of
        None \<Rightarrow> Inr None
      | Some d \<Rightarrow>
          if truthy d then
            seq (get d k) (\<lambda>v.
            Inr (parse_telemetry_value (to_float env) (case v of JStr s \<Rightarrow> Some s | _ \<Rightarrow> None)))
          else Inr None)"

text \<open>The argument \<^verbatim>\<open>parse_score\<close> sees: a falsy value returns at once, another value
  must have \<^verbatim>\<open>strip\<close>.\<close>

definition score_argument :: "json \<Rightarrow> error + string option" where
  "score_argument v = (if \<not> truthy v then Inr None else seq (as_str v) (\<lambda>s. Inr (Some s)))"

definition starting_gate_of :: "json \<Rightarrow> error + string option" where
  "starting_gate_of participant_data =
     seq (get participant_data ''starting_field'') (\<lambda>v.
     if truthy v then seq (as_str v) (\<lambda>s. if strip s \<noteq> [] then Inr (Some s) else Inr None)
     else Inr None)"

text \<open>The body of the loop over the riders of a heat: the tuple appended to
  \<^verbatim>\<open>heat_participants_data\<close>, if any.\<close>

definition participant_row ::
  "'f env \<Rightarrow> (string \<rightharpoonup> ident) \<Rightarrow> (ident \<times> ident \<rightharpoonup> ident) \<Rightarrow> json list \<Rightarrow> ident \<Rightarrow> ident
     \<Rightarrow> string \<Rightarrow> json \<Rightarrow> error + ((ident \<times> ident) \<times> 'f participant_cols) option" where
  "participant_row env rider_name_to_id rider_match_stat_id_map all_rider_telemetry_list
       match_id heat_id heat_label participant_data =
     seq (get participant_data ''rider'') (\<lambda>rider.
     seq (lookup_name rider_name_to_id rider) (\<lambda>rider_id.
     case (rider, rider_id) of
       (JStr name, Some rid) \<Rightarrow>
         if rid = 0 then Inr None
         else
           (case rider_match_stat_id_map (match_id, rid) of
              None \<Rightarrow> Inr None
            | Some match_rider_stat_id \<Rightarrow>
                seq (get_default participant_data ''rider_score'' (JStr [])) (\<lambda>raw.
                seq (score_argument raw) (\<lambda>arg.
                seq (get participant_data ''warning'') (\<lambda>warning.
                seq (participant_telemetry_details env all_rider_telemetry_list name
                       heat_label) (\<lambda>details.
                seq (telemetry_value env details ''lap_time'') (\<lambda>lap_time.
                seq (telemetry_value env details ''distance'') (\<lambda>distance.
                seq (telemetry_value env details ''vmax_lap'') (\<lambda>vmax.
                seq (telemetry_value env details ''lap1_time'') (\<lambda>lap1.
                seq (telemetry_value env details ''lap2_time'') (\<lambda>lap2.
                seq (telemetry_value env details ''lap3_time'') (\<lambda>lap3.
                seq (telemetry_value env details ''lap4_time'') (\<lambda>lap4.
                seq (text_field participant_data ''substituted_rider'') (\<lambda>substituted.
                seq (starting_gate_of participant_data) (\<lambda>gate.
                seq (text_field participant_data ''helmet_color'') (\<lambda>helmet.
                seq (sql_text raw) (\<lambda>raw_text.
                case parse_score arg of (points_numeric, bonus, accident_text) \<Rightarrow>
                Inr (Some ((heat_id, match_rider_stat_id),
                  \<lparr>rider_name = name, substituted_rider_name = substituted,
                   starting_gate = gate, helmet_color = helmet, score_raw = raw_text,
                   score = points_numeric, with_bonus = bonus, accident = accident_text,
                   with_warning = truthy warning, lap_time_seconds = lap_time,
                   distance_meters = distance, vmax_kmh = vmax, lap1_time_seconds = lap1,
                   lap2_time_seconds = lap2, lap3_time_seconds = lap3,
                   lap4_time_seconds = lap4\<rparr>))))))))))))))))))
     | _ \<Rightarrow> Inr None))"

text \<open>The telemetry list the heats are matched against: \<^verbatim>\<open>telemetry_data\<close> when it is
  a list, nothing otherwise.\<close>

definition telemetry_list :: "json \<Rightarrow> error + json list" where
  "telemetry_list match_data =
     seq (get_default match_data ''telemetry_data'' (JArr [])) (\<lambda>v.
     Inr (case v of JArr xs \<Rightarrow> xs | _ \<Rightarrow> []))"

text \<open>The values of the heat row. The four scores are computed when the parameters of
  the statement are built; the label is passed as it is and meets the adapter of its
  text column when the statement is executed.\<close>

definition heat_row :: "json \<Rightarrow> json \<Rightarrow> error + heat_cols" where
  "heat_row heat_data label =
     seq (int_field heat_data ''hometeam_heat_score'' None Some) (\<lambda>hh.
     seq (int_field heat_data ''awayteam_heat_score'' None Some) (\<lambda>ah.
     seq (int_field heat_data ''hometeam_current_match_score'' None Some) (\<lambda>hc.
     seq (int_field heat_data ''awayteam_current_match_score'' None Some) (\<lambda>ac.
     seq (sql_text label) (\<lambda>text.
     case text of
       None \<Rightarrow> Inl DatabaseError
     | Some heat_label \<Rightarrow>
         Inr \<lparr>heat_display_number = heat_label, hometeam_heat_score = hh,
              awayteam_heat_score = ah, hometeam_current_match_score_after_heat = hc,
              awayteam_current_match_score_after_heat = ac\<rparr>)))))"

text \<open>The list \<^verbatim>\<open>heat_participants_data\<close> of a heat: the rows of its riders.\<close>

definition heat_participants_data ::
  "'f env \<Rightarrow> json \<Rightarrow> (string \<rightharpoonup> ident) \<Rightarrow> (ident \<times> ident \<rightharpoonup> ident) \<Rightarrow> ident
     \<Rightarrow> ident \<Rightarrow> string \<Rightarrow> json \<Rightarrow> error + ((ident \<times> ident) \<times> 'f participant_cols) list" where
  "heat_participants_data env match_data rider_name_to_id rider_match_stat_id_map match_id
       heat_id heat_label heat_data =
     seq (get heat_data ''riders'') (\<lambda>riders.
     if truthy riders then
       seq (telemetry_list match_data) (\<lambda>all_rider_telemetry_list.
       seq (iterate riders)
         (collect (participant_row env rider_name_to_id rider_match_stat_id_map
            all_rider_telemetry_list match_id heat_id heat_label)))
     else Inr [])"

text \<open>
  The body of the loop over \<^verbatim>\<open>match_details\<close>. The accumulator is
  \<^verbatim>\<open>heat_sequence_counter\<close>: it is incremented first, for every heat object; a heat
  without \<^verbatim>\<open>heat_number\<close> is then skipped. \<open>label\<close> is the value of
  \<^verbatim>\<open>heat_display_number\<close>; the riders' rows carry it as the store has taken it.
\<close>

definition process_heat ::
  "'f env \<Rightarrow> json \<Rightarrow> (string \<rightharpoonup> ident) \<Rightarrow> (ident \<times> ident \<rightharpoonup> ident) \<Rightarrow> ident
     \<Rightarrow> json \<Rightarrow> int \<Rightarrow> (int, 'f database) act" where
  "process_heat env match_data rider_name_to_id rider_match_stat_id_map match_id
       heat_data heat_sequence_counter =
     bnd (lift (get heat_data ''heat_number'')) (\<lambda>label.
     if \<not> truthy label then ret (heat_sequence_counter + 1)
     else
       bnd (lift (heat_row heat_data label)) (\<lambda>cols.
       bnd (upsert_heat (match_id, heat_sequence_counter + 1) cols) (\<lambda>heat_id.
       bnd (lift (heat_participants_data env match_data rider_name_to_id
                    rider_match_stat_id_map match_id heat_id (heat_display_number cols)
                    heat_data)) (\<lambda>rows.
       bnd (if rows \<noteq> [] then upsert_participants rows else ret ()) (\<lambda>u.
       ret (heat_sequence_counter + 1))))))"

subsection \<open>One document, one transaction\<close>

text \<open>
  The statements of \<^verbatim>\<open>transform_and_load\<close> between \<^verbatim>\<open>conn.autocommit = False\<close> and
  \<^verbatim>\<open>conn.commit()\<close>, for the document \<open>match_data\<close>, section by section as the source
  marks them. First the lookup tables: arena, competition, referee, track commissioner,
  the two teams and the riders of both line-ups.
\<close>

record references =
  ref_arena :: "ident option"
  ref_competition :: "ident option"
  ref_referee :: "ident option"
  ref_commissioner :: "ident option"
  ref_home :: "ident option"
  ref_away :: "ident option"
  rider_name_to_id :: "string \<rightharpoonup> ident"

definition process_lookup_tables ::
  "'f database cursor \<Rightarrow> json \<Rightarrow> (references, 'f database) act" where
  "process_lookup_tables cursor match_data =
     bnd (lift (get match_data ''arena'')) (\<lambda>arena_name.
     bnd (get_or_create_id cursor ''arenas'' ''name'' arena_name ''arena_id'') (\<lambda>arena.
     bnd (lift (get match_data ''competition'')) (\<lambda>competition_name.
     bnd (get_or_create_id cursor ''competitions'' ''name'' competition_name
            ''competition_id'') (\<lambda>competition.
     bnd (lift (get match_data ''referee'')) (\<lambda>referee_name.
     bnd (get_or_create_id cursor ''referees'' ''name'' referee_name ''referee_id'') (\<lambda>referee.
     bnd (lift (get match_data ''track_commissioner'')) (\<lambda>commissioner_name.
     bnd (get_or_create_id cursor ''track_commissioners'' ''name'' commissioner_name
            ''commissioner_id'') (\<lambda>commissioner.
     bnd (lift (seq (get_default match_data ''team1'' (JObj [])) (\<lambda>t. get t ''team_name'')))
       (\<lambda>home_team_full_name.
     bnd (lift (get match_data ''home_team_details'')) (\<lambda>home_team_code.
     bnd (lift (seq (get_default match_data ''team2'' (JObj [])) (\<lambda>t. get t ''team_name'')))
       (\<lambda>away_team_full_name.
     bnd (lift (get match_data ''away_team_details'')) (\<lambda>away_team_code.
     bnd (resolve_team home_team_code home_team_full_name (Some arena)) (\<lambda>home.
     bnd (resolve_team away_team_code away_team_full_name None) (\<lambda>away.
     bnd (lift (team_riders match_data ''team1'')) (\<lambda>riders1.
     bnd (lift (team_riders match_data ''team2'')) (\<lambda>riders2.
     bnd (for_each (resolve_rider cursor) (riders1 @ riders2) Map.empty) (\<lambda>name_ids.
     ret \<lparr>ref_arena = arena, ref_competition = competition, ref_referee = referee,
          ref_commissioner = commissioner, ref_home = home, ref_away = away,
          rider_name_to_id = name_ids\<rparr>)))))))))))))))))"

text \<open>The match row, upserted on its URL; the statement returns \<^verbatim>\<open>match_id\<close>.\<close>

definition process_match :: "'f env \<Rightarrow> json \<Rightarrow> references \<Rightarrow> (ident, 'f database) act" where
  "process_match env match_data refs =
     bnd (lift (match_row env match_data (ref_competition refs) (ref_referee refs)
                  (ref_commissioner refs) (ref_arena refs) (ref_home refs) (ref_away refs)))
       (\<lambda>(url, cols). upsert_match url cols)"

text \<open>"Match Team Info": one statement with the rows of the team blocks that are there.\<close>

definition process_match_team_info ::
  "json \<Rightarrow> references \<Rightarrow> ident \<Rightarrow> (unit, 'f database) act" where
  "process_match_team_info match_data refs match_id =
     bnd (lift (team_info_row match_data ''team1'' match_id (ref_home refs))) (\<lambda>info1.
     bnd (lift (team_info_row match_data ''team2'' match_id (ref_away refs))) (\<lambda>info2.
     if info1 = None \<and> info2 = None then ret ()
     else upsert_team_info
            (case_option [] (\<lambda>r. [r]) info1 @ case_option [] (\<lambda>r. [r]) info2)))"

text \<open>"Match Rider Stats": one statement; the identifiers it returns fill
  \<^verbatim>\<open>rider_match_stat_id_map\<close>.\<close>

definition process_match_rider_stats ::
  "json \<Rightarrow> references \<Rightarrow> ident \<Rightarrow> (ident \<times> ident \<rightharpoonup> ident, 'f database) act" where
  "process_match_rider_stats match_data refs match_id =
     bnd (lift (seq (get match_data ''team1'') (\<lambda>t.
                process_team_rider_stats (rider_name_to_id refs) match_id t (ref_home refs))))
       (\<lambda>stats1.
     bnd (lift (seq (get match_data ''team2'') (\<lambda>t.
                process_team_rider_stats (rider_name_to_id refs) match_id t (ref_away refs))))
       (\<lambda>stats2.
     if stats1 @ stats2 = [] then ret Map.empty
     else bnd (upsert_rider_stats (stats1 @ stats2)) (\<lambda>returned.
          ret (stat_id_map returned Map.empty))))"

text \<open>"Heats and Heat Participants": the loop over \<^verbatim>\<open>match_details\<close>, the counter
  starting at 0.\<close>

definition process_heats ::
  "'f env \<Rightarrow> json \<Rightarrow> (string \<rightharpoonup> ident) \<Rightarrow> (ident \<times> ident \<rightharpoonup> ident) \<Rightarrow> ident
     \<Rightarrow> (unit, 'f database) act" where
  "process_heats env match_data name_ids rider_match_stat_id_map match_id =
     bnd (lift (get match_data ''match_details'')) (\<lambda>match_details.
     if truthy match_details then
       bnd (lift (iterate match_details)) (\<lambda>heat_list.
       bnd (for_each (process_heat env match_data name_ids rider_match_stat_id_map match_id)
              heat_list 0) (\<lambda>n. ret ()))
     else ret ())"

definition load_document ::
  "'f database cursor \<Rightarrow> 'f env \<Rightarrow> json \<Rightarrow> (unit, 'f database) act" where
  "load_document cursor env match_data =
     bnd (process_lookup_tables cursor match_data) (\<lambda>refs.
     bnd (process_match env match_data refs) (\<lambda>match_id.
     bnd (process_match_team_info match_data refs match_id) (\<lambda>u.
     bnd (process_match_rider_stats match_data refs match_id) (\<lambda>rider_match_stat_id_map.
     process_heats env match_data (rider_name_to_id refs) rider_match_stat_id_map match_id))))"

subsection \<open>Files and the connection\<close>

text \<open>
  The connection: the committed database and the one the open transaction works on.
  \<^verbatim>\<open>commit\<close> makes the work permanent, \<^verbatim>\<open>rollback\<close> throws it away.
\<close>

record 'f connection =
  committed :: "'f database"
  working :: "'f database"
  autocommit :: bool

definition commit :: "'f connection \<Rightarrow> 'f connection" where
  "commit conn = conn\<lparr>committed := working conn\<rparr>"

definition rollback :: "'f connection \<Rightarrow> 'f connection" where
  "rollback conn = conn\<lparr>working := committed conn\<rparr>"

text \<open>What \<^verbatim>\<open>open\<close> and \<^verbatim>\<open>json.load\<close> make of a file of the input directory.\<close>

datatype file_content = Vanished | Undecodable | Document json

datatype outcome = Committed | RolledBack error

text \<open>
  One iteration of the loop over the files, up to the commit: the \<^verbatim>\<open>try\<close> block, its
  \<^verbatim>\<open>except\<close> clauses (each one rolls back) and the \<^verbatim>\<open>finally\<close> clause.
\<close>

definition process_file ::
  "'f database cursor \<Rightarrow> 'f env \<Rightarrow> file_content \<Rightarrow> 'f connection
     \<Rightarrow> outcome \<times> 'f connection" where
  "process_file cursor env content conn =
     (case content of
        Vanished \<Rightarrow> (RolledBack FileNotFoundError, (rollback conn)\<lparr>autocommit := True\<rparr>)
      | Undecodable \<Rightarrow> (RolledBack JSONDecodeError, (rollback conn)\<lparr>autocommit := True\<rparr>)
      | Document match_data \<Rightarrow>
          (case load_document cursor env match_data (working (conn\<lparr>autocommit := False\<rparr>)) of
             Inl e \<Rightarrow> (RolledBack e, (rollback (conn\<lparr>autocommit := False\<rparr>))\<lparr>autocommit := True\<rparr>)
           | Inr (u, db) \<Rightarrow>
               (Committed, (commit (conn\<lparr>autocommit := False, working := db\<rparr>))\<lparr>autocommit := True\<rparr>)))"

text \<open>
  The input directory and the directory of processed files, as lists of names with
  contents. \<open>move_fails\<close> tells for which file \<^verbatim>\<open>shutil.move\<close> raises (the error is
  logged, the file stays).
\<close>

record 'f pipeline =
  conn :: "'f connection"
  input_dir :: "(string \<times> file_content) list"
  processed_dir :: "(string \<times> file_content) list"
  results :: "(string \<times> outcome) list"

definition process_entry ::
  "'f database cursor \<Rightarrow> 'f env \<Rightarrow> (string \<Rightarrow> bool) \<Rightarrow> string \<times> file_content
     \<Rightarrow> 'f pipeline \<Rightarrow> 'f pipeline" where
  "process_entry cursor env move_fails entry p =
     (case process_file cursor env (snd entry) (conn p) of
        (Committed, c) \<Rightarrow>
          if move_fails (fst entry)
          then p\<lparr>conn := c, results := results p @ [(fst entry, Committed)]\<rparr>
          else p\<lparr>conn := c,
                 input_dir := filter (\<lambda>f. fst f \<noteq> fst entry) (input_dir p),
                 processed_dir := processed_dir p @ [entry],
                 results := results p @ [(fst entry, Committed)]\<rparr>
      | (RolledBack e, c) \<Rightarrow>
          p\<lparr>conn := c, results := results p @ [(fst entry, RolledBack e)]\<rparr>)"

text \<open>\<^verbatim>\<open>transform_and_load(conn)\<close>: the files whose names end in \<^verbatim>\<open>.json\<close>, in the order of
  the listing.\<close>

definition endswith :: "string \<Rightarrow> string \<Rightarrow> bool" where
  "endswith s suffix = (length suffix \<le> length s \<and> drop (length s - length suffix) s = suffix)"

definition transform_and_load ::
  "'f database cursor \<Rightarrow> 'f env \<Rightarrow> (string \<Rightarrow> bool) \<Rightarrow> 'f pipeline \<Rightarrow> 'f pipeline" where
  "transform_and_load cursor env move_fails p =
     fold (process_entry cursor env move_fails)
       (filter (\<lambda>f. endswith (fst f) ''.json'') (input_dir p)) p"

section \<open>A sample document\<close>

text \<open>
  A fixture as the spider writes it, with one rider per team and three heat objects, the
  second of which has no \<^verbatim>\<open>heat_number\<close>. The telemetry list knows the first rider
  in capitals, with the heat labelled \<^verbatim>\<open>1.\<close>
\<close>

definition rider_entry :: "string \<Rightarrow> string \<Rightarrow> string \<Rightarrow> json" where
  "rider_entry number name points =
     JObj [(''number'', JStr number), (''name'', JStr name),
           (''scores'', JArr [JStr points]), (''sum'', JStr points), (''bonus'', JStr [])]"

definition team_block :: "string \<Rightarrow> json list \<Rightarrow> json" where
  "team_block name riders =
     JObj [(''team_name'', JStr name), (''manager'', JStr ''Manager''), (''coach'', JNull),
           (''head_of_team'', JNull), (''riders'', JArr riders)]"

definition heat_rider :: "string \<Rightarrow> string \<Rightarrow> string \<Rightarrow> json" where
  "heat_rider gate name points =
     JObj [(''starting_field'', JStr gate), (''helmet_color'', JStr ''red''),
           (''substituted_rider'', JNull), (''rider'', JStr name),
           (''rider_score'', JStr points), (''warning'', JNull)]"

definition heat_block :: "json \<Rightarrow> json list \<Rightarrow> json" where
  "heat_block label riders =
     JObj [(''heat_number'', label), (''hometeam_heat_score'', JStr ''3''),
           (''awayteam_heat_score'', JStr ''3''), (''hometeam_current_match_score'', JStr ''3''),
           (''awayteam_current_match_score'', JStr ''3''), (''riders'', JArr riders)]"

definition lap_detail :: "string \<Rightarrow> string \<Rightarrow> json" where
  "lap_detail label lap =
     JObj [(''heat_number'', JStr label), (''lap_time'', JStr lap), (''distance'', JStr []),
           (''vmax_lap'', JStr []), (''lap1_time'', JStr []), (''lap2_time'', JStr []),
           (''lap3_time'', JStr []), (''lap4_time'', JStr [])]"

definition telemetry_entry :: "string \<Rightarrow> json list \<Rightarrow> json" where
  "telemetry_entry name details =
     JObj [(''rider_number'', JStr ''9''), (''team_code'', JStr ''AAA''),
           (''rider_name'', JStr name), (''best_time'', JStr []), (''vmax_summary'', JStr []),
           (''detailed_telemetry'', JArr details)]"

definition sample_fixture :: "json list \<Rightarrow> json \<Rightarrow> json" where
  "sample_fixture heat_list telemetry =
     JObj [(''source'', JStr ''match_details_aggregated_with_telemetry''),
           (''match_url'', JStr ''https://ekstraliga.pl/se/mecz/1234''),
           (''competition'', JStr ''PGE Ekstraliga''), (''round_type'', JStr ''Main''),
           (''round'', JStr ''Round 1''), (''match_date'', JStr ''05.04.2024 18:00''),
           (''attendance_summary'', JStr ''9000''), (''referee'', JStr ''A Referee''),
           (''track_commissioner'', JStr ''A Commissioner''), (''arena'', JStr ''Arena''),
           (''home_team_details'', JStr ''AAA''), (''home_score_details'', JStr ''48''),
           (''away_team_details'', JStr ''BBB''), (''away_score_details'', JStr ''42''),
           (''team1'', team_block ''Alpha'' [rider_entry ''9'' ''Jan Kowal'' ''3'']),
           (''team2'', team_block ''Beta'' [rider_entry ''1'' ''Piotr Nowak'' ''0'']),
           (''match_details'', JArr heat_list),
           (''telemetry_data'', telemetry)]"

definition sample_heats :: "json list" where
  "sample_heats =
     [heat_block (JStr ''1'') [heat_rider ''A'' ''Jan Kowal'' ''3'', heat_rider ''B'' ''Piotr Nowak'' ''X''],
      heat_block JNull [heat_rider ''A'' ''Jan Kowal'' ''2''],
      heat_block (JStr ''3'') [heat_rider ''C'' ''Piotr Nowak'' (''1'' @ [apostrophe])]]"

definition sample_document :: json where
  "sample_document =
     sample_fixture sample_heats
       (JArr [telemetry_entry ''JAN KOWAL'' [lap_detail ''1.'' ''61.843 s'']])"

text \<open>An interpreter whose \<^verbatim>\<open>float\<close> is the identity on the text and whose case mapping
  is that of ASCII, for evaluation.\<close>

definition sample_env :: "string env" where
  "sample_env =
     \<lparr>strptime = Some, dumps = (\<lambda>v. ''[...]''), to_float = Some, str_upper = upper\<rparr>"

text \<open>A fixture whose second heat has no score cells: the spider writes \<^verbatim>\<open>null\<close> for them.\<close>

definition broken_document :: json where
  "broken_document =
     sample_fixture
       [heat_block (JStr ''1'') [heat_rider ''A'' ''Jan Kowal'' ''3''],
        JObj [(''heat_number'', JStr ''2''), (''hometeam_heat_score'', JNull)]]
       (JStr ''Telemetry data not processed'')"

definition fresh_connection :: "string connection" where
  "fresh_connection = \<lparr>committed = empty_database, working = empty_database, autocommit = True\<rparr>"

definition fresh_pipeline :: "(string \<times> file_content) list \<Rightarrow> string pipeline" where
  "fresh_pipeline files =
     \<lparr>conn = fresh_connection, input_dir = files, processed_dir = [], results = []\<rparr>"

text \<open>
  The cursor of a session that loses every race on the name tables: its \<^verbatim>\<open>SELECT\<close> sees
  no row, its \<^verbatim>\<open>INSERT\<close> meets a conflict and returns none, and the \<^verbatim>\<open>SELECT\<close> after the
  conflict sees no row either.
\<close>

definition racy_cursor :: "'f database cursor" where
  "racy_cursor =
     \<lparr>execute_select = (\<lambda>tname col v. stmt (\<lambda>db. Inr (None, db))),
      execute_insert = (\<lambda>tname col v. stmt (\<lambda>db. Inr (None, db))),
      mark_failed = (\<lambda>db. db\<lparr>tx_failed := True\<rparr>)\<rparr>"

text \<open>What a database holds, for inspection: the arena and the teams of the stored
  matches, and the number of rows of the tables a document is spread over.\<close>

definition stored_arenas :: "'f database \<Rightarrow> ident option list" where
  "stored_arenas db = map (\<lambda>(i, k, v). arena_id v) (rows (matches db))"

definition row_counts :: "'f database \<Rightarrow> nat list" where
  "row_counts db =
     [length (rows (matches db)), length (rows (match_team_info db)),
      length (rows (match_rider_stats db)), length (rows (heats db)),
      length (rows (heat_participants db))]"

definition heat_sequences :: "'f database \<Rightarrow> (ident \<times> int) list" where
  "heat_sequences db = keys_of (heats db)"

text \<open>The riders of the sample document as the first load of an empty store
  resolves them, their statistics rows in match 1, and its telemetry list.\<close>

definition sample_names :: "string \<rightharpoonup> ident" where
  "sample_names = [''Jan Kowal'' \<mapsto> 1, ''Piotr Nowak'' \<mapsto> 2]"

definition sample_stats :: "ident \<times> ident \<rightharpoonup> ident" where
  "sample_stats = [(1, 1) \<mapsto> 1, (1, 2) \<mapsto> 2]"





section \<open>Telemetry matching, stated\<close>







text \<open>A heat object that has a label: its \<^verbatim>\<open>heat_number\<close> is there and truthy.\<close>

definition labelled :: "json \<Rightarrow> bool" where
  "labelled heat_data =
     (case get heat_data ''heat_number'' of Inr label \<Rightarrow> truthy label | Inl e \<Rightarrow> False)"

section \<open>Invariants of the store, stated\<close>

text \<open>A row appended to a table under a key that was not there.\<close>

definition with_row :: "'k \<Rightarrow> 'v \<Rightarrow> ('k, 'v) table \<Rightarrow> ('k, 'v) table" where
  "with_row k v t = t\<lparr>rows := rows t @ [(Suc (serial t), k, v)], serial := Suc (serial t)\<rparr>"




section \<open>Lists\<close>

lemma count_list_snoc: "count_list (xs @ [x]) y = count_list xs y + (if x = y then 1 else 0)"
  by (induction xs) auto

section \<open>Properties of the value parsers\<close>

lemma replace_from_no_char:
  "c \<notin> set new \<Longrightarrow> k = 0 \<Longrightarrow> c \<notin> set (replace_from [c] new k s)"
  by (induction s) auto

lemma replace_removes_char: "c \<notin> set (replace s [c] [])"
  by (simp add: replace_def replace_from_no_char)

lemma parse_score_accident:
  assumes "parse_score raw = (p, b, Some a)"
  shows "p = 0 \<and> apostrophe \<notin> set a"
proof (cases raw)
  case None
  with assms show ?thesis by (simp add: parse_score_def)
next
  case (Some s)
  with assms show ?thesis
    by (auto simp: parse_score_def Let_def replace_removes_char
        split: if_splits option.splits)
qed

lemma in_dropWhile: "c \<in> set s \<Longrightarrow> \<not> P c \<Longrightarrow> c \<in> set (dropWhile P s)"
  by (induction s) auto

lemma strip_keeps: "c \<in> set s \<Longrightarrow> \<not> py_isspace c \<Longrightarrow> c \<in> set (strip s)"
  unfolding strip_def by (simp add: in_dropWhile)

lemma strip_subset: "c \<in> set (strip s) \<Longrightarrow> c \<in> set s"
  unfolding strip_def by (auto dest!: set_dropWhileD)

lemma apostrophe_not_space: "\<not> py_isspace apostrophe"
  by (simp add: py_isspace_def apostrophe_def)

lemma of_char_upper_char:
  "(of_char (upper_char c) :: nat) =
     (if 97 \<le> (of_char c :: nat) \<and> (of_char c :: nat) \<le> 122 then of_char c - 32 else of_char c)"
proof (cases "97 \<le> (of_char c :: nat) \<and> (of_char c :: nat) \<le> 122")
  case True
  then have m: "(of_char c - 32 :: nat) mod 256 = of_char c - 32"
    by (intro mod_less) arith
  have "upper_char c = char_of (of_char c - 32 :: nat)"
    by (simp only: upper_char_def Let_def if_P[OF True])
  then have "(of_char (upper_char c) :: nat) = (of_char c - 32) mod 256"
    by (simp only: of_char_of)
  with m show ?thesis
    by (simp only: if_P[OF True])
next
  case False
  have "upper_char c = c"
    by (simp only: upper_char_def Let_def if_not_P[OF False])
  then show ?thesis
    by (simp only: if_not_P[OF False])
qed

lemma upper_char_apostrophe: "(upper_char c = apostrophe) = (c = apostrophe)"
proof -
  have a: "of_char apostrophe = (39::nat)" by (simp add: apostrophe_def)
  have "(of_char (upper_char c) = (39::nat)) = (of_char c = (39::nat))"
  proof (cases "97 \<le> (of_char c :: nat) \<and> (of_char c :: nat) \<le> 122")
    case True
    have "(of_char (upper_char c) :: nat) = of_char c - 32"
      by (simp only: of_char_upper_char if_P[OF True])
    with True show ?thesis by arith
  next
    case False
    have "(of_char (upper_char c) :: nat) = of_char c"
      by (simp only: of_char_upper_char if_not_P[OF False])
    then show ?thesis by simp
  qed
  then have "(of_char (upper_char c) = (of_char apostrophe :: nat)) = (of_char c = (of_char apostrophe :: nat))"
    by (simp only: a)
  then show ?thesis
    by (simp only: of_char_eq_iff)
qed

lemma apostrophe_in_upper: "(apostrophe \<in> set (upper t)) = (apostrophe \<in> set t)"
proof (induction t)
  case Nil
  show ?case by (simp add: upper_def)
next
  case (Cons c t)
  have "(apostrophe = upper_char c) = (apostrophe = c)"
    using upper_char_apostrophe[of c] by (simp add: eq_commute)
  with Cons show ?case by (simp add: upper_def)
qed

lemma apostrophe_upper_strip: "(apostrophe \<in> set (upper (strip s))) = (apostrophe \<in> set s)"
  using strip_keeps[of apostrophe s] strip_subset[of apostrophe s] apostrophe_not_space
  unfolding apostrophe_in_upper by blast

lemma replace_from_absent: "c \<notin> set s \<Longrightarrow> replace_from [c] new 0 s = s"
  by (induction s) auto

lemma replace_absent: "c \<notin> set s \<Longrightarrow> replace s [c] new = s"
  by (simp add: replace_def replace_from_absent)

text \<open>
  C9. The score parser maps \<open>12\<close> to \<open>(12, false, null)\<close>, \<open>12'\<close> to \<open>(12, true, null)\<close>,
  the empty and the absent token to \<open>(0, false, null)\<close> and \<open>X\<close> to \<open>(0, false, X)\<close>.
  In general the bonus flag records whether the marker occurs in the token, a remainder
  that is an integer gives the points, and any other remainder becomes the accident
  code (uppercased, marker removed) with zero points: whenever an accident code is
  returned the points are \<open>0\<close>.
\<close>

theorem parse_score_spec:
  "parse_score (Some ''12'') = (12, False, None)
   \<and> parse_score (Some (''12'' @ [apostrophe])) = (12, True, None)
   \<and> parse_score (Some []) = (0, False, None)
   \<and> parse_score None = (0, False, None)
   \<and> parse_score (Some ''X'') = (0, False, Some ''X'')
   \<and> (\<forall>raw p b a. parse_score raw = (p, b, Some a) \<longrightarrow> p = 0 \<and> apostrophe \<notin> set a)
   \<and> (\<forall>s. strip s \<noteq> [] \<longrightarrow>
        parse_score (Some s) =
          (case py_int (replace (upper (strip s)) [apostrophe] []) of
             Some n \<Rightarrow> (n, apostrophe \<in> set s, None)
           | None \<Rightarrow> (0, apostrophe \<in> set s, Some (replace (upper (strip s)) [apostrophe] []))))"
proof (intro conjI allI impI)
  show "parse_score (Some ''12'') = (12, False, None)" by code_simp
  show "parse_score (Some (''12'' @ [apostrophe])) = (12, True, None)" by code_simp
  show "parse_score (Some []) = (0, False, None)" by (simp add: parse_score_def)
  show "parse_score None = (0, False, None)" by (simp add: parse_score_def)
  show "parse_score (Some ''X'') = (0, False, Some ''X'')" by code_simp
next
  fix raw p b a assume "parse_score raw = (p, b, Some a)"
  then show "p = 0" by (simp add: parse_score_accident)
next
  fix raw p b a assume "parse_score raw = (p, b, Some a)"
  then show "apostrophe \<notin> set a" using parse_score_accident by blast
next
  fix s assume ne: "strip s \<noteq> []"
  then have ne': "s \<noteq> []" by (auto simp: strip_def)
  show "parse_score (Some s) =
          (case py_int (replace (upper (strip s)) [apostrophe] []) of
             Some n \<Rightarrow> (n, apostrophe \<in> set s, None)
           | None \<Rightarrow> (0, apostrophe \<in> set s, Some (replace (upper (strip s)) [apostrophe] [])))"
  proof (cases "apostrophe \<in> set s")
    case True
    then have "apostrophe \<in> set (upper (strip s))" by (simp add: apostrophe_upper_strip)
    with ne ne' True show ?thesis
      by (simp add: parse_score_def Let_def split: option.splits)
  next
    case False
    then have n: "apostrophe \<notin> set (upper (strip s))" by (simp add: apostrophe_upper_strip)
    then have "replace (upper (strip s)) [apostrophe] [] = upper (strip s)"
      by (rule replace_absent)
    with ne ne' False n show ?thesis
      by (simp add: parse_score_def Let_def split: option.splits)
  qed
qed

theorem parse_score_spec_witness:
  "parse_score (Some ''w '') = (0, False, Some ''W'') \<and> (0::int) = 0 \<and> apostrophe \<notin> set ''W''
   \<and> strip ''w '' \<noteq> []"
proof -
  have e: "parse_score (Some ''w '') = (0, False, Some ''W'')" by code_simp
  have s: "strip ''w '' \<noteq> []" by code_simp
  from parse_score_spec have
    "\<forall>raw p b a. parse_score raw = (p, b, Some a) \<longrightarrow> p = 0 \<and> apostrophe \<notin> set a"
    by blast
  with e have "apostrophe \<notin> set ''W''" by blast
  with e s show ?thesis by simp
qed

section \<open>Properties of the tracker\<close>

subsection \<open>What one step does\<close>

lemma diff_singleton_empty: "c \<in> s \<Longrightarrow> (s - {c} = {}) = (s = {c})"
  by auto

lemma closings_logged:
  "closings b (logged e st) = closings b st + (if e = AllCompleted b then 1 else 0)"
  by (simp add: closings_def logged_def count_list_snoc)

lemma mark_writes_logged:
  "mark_writes b (logged e st) = mark_writes b st + (if e = UpdateIssued b then 1 else 0)"
  by (simp add: mark_writes_def logged_def count_list_snoc)

lemma closings_update:
  "closings b (st\<lparr>is_scraped := x\<rparr>) = closings b st"
  "closings b (st\<lparr>pending_match_requests := y\<rparr>) = closings b st"
  by (simp_all add: closings_def)

lemma mark_writes_update:
  "mark_writes b (st\<lparr>is_scraped := x\<rparr>) = mark_writes b st"
  "mark_writes b (st\<lparr>pending_match_requests := y\<rparr>) = mark_writes b st"
  by (simp_all add: mark_writes_def)

lemma logged_fields:
  "pending_match_requests (logged e st) = pending_match_requests st"
  "start_url_meta (logged e st) = start_url_meta st"
  "cursor_conn (logged e st) = cursor_conn st"
  "is_scraped (logged e st) = is_scraped st"
  by (simp_all add: logged_def)

lemma mark_scraped_fields:
  "pending_match_requests (mark_scraped fl u st) = pending_match_requests st"
  "start_url_meta (mark_scraped fl u st) = start_url_meta st"
  "cursor_conn (mark_scraped fl u st) = cursor_conn st"
  by (simp_all add: mark_scraped_def logged_fields Let_def split: option.splits bool.splits)

lemma mark_scraped_closings: "closings b (mark_scraped fl u st) = closings b st"
  by (simp add: mark_scraped_def closings_logged Let_def closings_update
      split: option.splits bool.splits)

lemma mark_scraped_writes:
  "mark_writes b (mark_scraped fl u st) =
     mark_writes b st +
       (if u = b \<and> start_url_meta st u = Some (Some False) \<and> cursor_conn st then 1 else 0)"
  by (auto simp: mark_scraped_def mark_writes_logged Let_def mark_writes_update logged_fields
      split: option.splits bool.splits)

lemma mark_scraped_is_scraped:
  "is_scraped (mark_scraped fl u st) =
     (if start_url_meta st u = Some (Some False) \<and> cursor_conn st \<and> \<not> fl u
      then insert u (is_scraped st) else is_scraped st)"
  by (auto simp: mark_scraped_def logged_fields logged_def Let_def
      split: option.splits bool.splits)

lemma completion_check_fields:
  "start_url_meta (completion_check fl u c st) = start_url_meta st"
  "cursor_conn (completion_check fl u c st) = cursor_conn st"
  by (simp_all add: completion_check_def mark_scraped_fields logged_fields Let_def
      split: option.splits)

lemma completion_check_pending:
  "pending_match_requests (completion_check fl u c st) b =
     (if u = b \<and> u \<noteq> [] \<and> c \<noteq> [] then
        (case pending_match_requests st b of None \<Rightarrow> None | Some s \<Rightarrow> Some (s - {c}))
      else pending_match_requests st b)"
  by (auto simp: completion_check_def mark_scraped_fields logged_fields Let_def
      split: option.splits)

lemma completion_check_closings:
  "closings b (completion_check fl u c st) =
     closings b st +
       (if u = b \<and> u \<noteq> [] \<and> c \<noteq> [] \<and> pending_match_requests st u = Some {c} then 1 else 0)"
proof (cases "u \<noteq> [] \<and> c \<noteq> []")
  case False
  then show ?thesis
    by (auto simp: completion_check_def closings_logged)
next
  case ne: True
  show ?thesis
  proof (cases "pending_match_requests st u")
    case None
    with ne show ?thesis
      by (simp add: completion_check_def closings_logged)
  next
    case (Some s)
    show ?thesis
    proof (cases "c \<in> s")
      case False
      then have "s \<noteq> {c}" by auto
      with ne Some False show ?thesis
        by (simp add: completion_check_def closings_logged)
    next
      case True
      then have e: "(s - {c} = {}) = (s = {c})" by (rule diff_singleton_empty)
      show ?thesis
      proof (cases "s = {c}")
        case True
        with ne Some show ?thesis
          by (simp add: completion_check_def Let_def mark_scraped_closings closings_logged
              closings_update)
      next
        case False
        with ne Some True e show ?thesis
          by (simp add: completion_check_def Let_def closings_update)
      qed
    qed
  qed
qed

lemma completion_check_writes:
  "mark_writes b (completion_check fl u c st) =
     mark_writes b st +
       (if u = b \<and> u \<noteq> [] \<and> c \<noteq> [] \<and> pending_match_requests st u = Some {c}
           \<and> start_url_meta st u = Some (Some False) \<and> cursor_conn st then 1 else 0)"
proof (cases "u \<noteq> [] \<and> c \<noteq> []")
  case False
  then show ?thesis
    by (auto simp: completion_check_def mark_writes_logged)
next
  case ne: True
  show ?thesis
  proof (cases "pending_match_requests st u")
    case None
    with ne show ?thesis
      by (simp add: completion_check_def mark_writes_logged)
  next
    case (Some s)
    show ?thesis
    proof (cases "c \<in> s")
      case False
      then have "s \<noteq> {c}" by auto
      with ne Some False show ?thesis
        by (simp add: completion_check_def mark_writes_logged)
    next
      case True
      then have e: "(s - {c} = {}) = (s = {c})" by (rule diff_singleton_empty)
      show ?thesis
      proof (cases "s = {c}")
        case True
        with ne Some show ?thesis
          by (simp add: completion_check_def Let_def mark_scraped_writes mark_writes_logged
              logged_fields mark_writes_update)
      next
        case False
        with ne Some True e show ?thesis
          by (simp add: completion_check_def Let_def mark_writes_update)
      qed
    qed
  qed
qed

lemma completion_check_is_scraped:
  "is_scraped (completion_check fl u c st) =
     (if u \<noteq> [] \<and> c \<noteq> [] \<and> pending_match_requests st u = Some {c}
         \<and> start_url_meta st u = Some (Some False) \<and> cursor_conn st \<and> \<not> fl u
      then insert u (is_scraped st) else is_scraped st)"
proof (cases "u \<noteq> [] \<and> c \<noteq> []")
  case False
  then show ?thesis
    by (auto simp: completion_check_def logged_fields)
next
  case ne: True
  show ?thesis
  proof (cases "pending_match_requests st u")
    case None
    with ne show ?thesis
      by (simp add: completion_check_def logged_fields)
  next
    case (Some s)
    show ?thesis
    proof (cases "c \<in> s")
      case False
      then have "s \<noteq> {c}" by auto
      with ne Some False show ?thesis
        by (simp add: completion_check_def logged_fields)
    next
      case True
      then have e: "(s - {c} = {}) = (s = {c})" by (rule diff_singleton_empty)
      show ?thesis
      proof (cases "s = {c}")
        case True
        with ne Some show ?thesis
          by (simp add: completion_check_def Let_def mark_scraped_is_scraped logged_fields)
      next
        case False
        with ne Some True e show ?thesis
          by (simp add: completion_check_def Let_def)
      qed
    qed
  qed
qed

lemma track_fields:
  "start_url_meta (track u c st) = start_url_meta st"
  "cursor_conn (track u c st) = cursor_conn st"
  "is_scraped (track u c st) = is_scraped st"
  "journal (track u c st) = journal st"
  by (simp_all add: track_def split: option.splits)

lemma track_pending:
  "pending_match_requests (track u c st) b =
     (if u = b then
        Some (insert c (case pending_match_requests st b of None \<Rightarrow> {} | Some s \<Rightarrow> s))
      else pending_match_requests st b)"
  by (simp add: track_def split: option.splits)

lemma track_counts:
  "closings b (track u c st) = closings b st"
  "mark_writes b (track u c st) = mark_writes b st"
  by (simp_all add: closings_def mark_writes_def track_fields)

lemma details_pending:
  "pending_match_requests (parse_match_details fl r (Some u) c st) b =
     (if u = b \<and> u \<noteq> [] \<and> c \<noteq> [] then
        (case pending_match_requests st b of None \<Rightarrow> None | Some s \<Rightarrow> Some (s - {c}))
      else pending_match_requests st b)"
  by (auto simp: parse_match_details_def completion_check_pending)

lemma details_closings:
  "closings b (parse_match_details fl r (Some u) c st) =
     closings b st +
       (if u = b \<and> u \<noteq> [] \<and> c \<noteq> [] \<and> pending_match_requests st u = Some {c} then 1 else 0)"
  by (auto simp: parse_match_details_def completion_check_closings)

lemma details_writes:
  "mark_writes b (parse_match_details fl r (Some u) c st) =
     mark_writes b st +
       (if u = b \<and> u \<noteq> [] \<and> c \<noteq> [] \<and> pending_match_requests st u = Some {c}
           \<and> start_url_meta st u = Some (Some False) \<and> cursor_conn st then 1 else 0)"
  by (auto simp: parse_match_details_def completion_check_writes)

lemma details_is_scraped:
  "is_scraped (parse_match_details fl r (Some u) c st) =
     (if u \<noteq> [] \<and> c \<noteq> [] \<and> pending_match_requests st u = Some {c}
         \<and> start_url_meta st u = Some (Some False) \<and> cursor_conn st \<and> \<not> fl u
      then insert u (is_scraped st) else is_scraped st)"
  by (auto simp: parse_match_details_def completion_check_is_scraped)

lemma details_fields:
  "start_url_meta (parse_match_details fl r (Some u) c st) = start_url_meta st"
  "cursor_conn (parse_match_details fl r (Some u) c st) = cursor_conn st"
  by (simp_all add: parse_match_details_def completion_check_fields)

lemma step_fields:
  "start_url_meta (step fl e st) = start_url_meta st"
  "cursor_conn (step fl e st) = cursor_conn st"
  by (cases e; simp add: track_fields details_fields)+


lemma step_closings:
  "closings b (step fl e st) =
     closings b st +
       (case e of
          Register u c \<Rightarrow> 0
        | Complete r u c \<Rightarrow>
            if u = b \<and> u \<noteq> [] \<and> c \<noteq> [] \<and> pending_match_requests st u = Some {c} then 1 else 0)"
  by (cases e) (simp_all add: track_counts details_closings)

lemma step_writes:
  "mark_writes b (step fl e st) =
     mark_writes b st +
       (case e of
          Register u c \<Rightarrow> 0
        | Complete r u c \<Rightarrow>
            if u = b \<and> u \<noteq> [] \<and> c \<noteq> [] \<and> pending_match_requests st u = Some {c}
               \<and> start_url_meta st u = Some (Some False) \<and> cursor_conn st then 1 else 0)"
  by (cases e) (simp_all add: track_counts details_writes)

lemma step_is_scraped:
  "is_scraped (step fl e st) =
     (case e of
        Register u c \<Rightarrow> is_scraped st
      | Complete r u c \<Rightarrow>
          if u \<noteq> [] \<and> c \<noteq> [] \<and> pending_match_requests st u = Some {c}
             \<and> start_url_meta st u = Some (Some False) \<and> cursor_conn st \<and> \<not> fl u
          then insert u (is_scraped st) else is_scraped st)"
  by (cases e) (simp_all add: track_fields details_is_scraped)




subsection \<open>Runs\<close>



text \<open>What \<^verbatim>\<open>parse\<close> leaves behind is what the tracking statements of the yielded
  requests do, one after the other.\<close>

lemma parse_loop_registers:
  "parse_loop urljoin has_match b hrefs st = (st', reqs) \<Longrightarrow>
   st' = run fl (map (Register b) reqs) st"
proof (induction hrefs arbitrary: st st' reqs)
  case Nil
  then show ?case by simp
next
  case (Cons h hrefs)
  then show ?case
    by (auto simp: Let_def split: option.splits if_splits prod.splits)
qed

lemma parse_registers:
  "parse urljoin has_match su containers st = (st', reqs) \<Longrightarrow>
   st' = run fl (map (Register (the su)) reqs) st"
  by (auto simp: parse_def dest: parse_loop_registers split: option.splits if_splits)

lemma parse_loop_all_known:
  "cursor_conn st \<Longrightarrow> \<forall>h. Some h \<in> set hrefs \<longrightarrow> has_match (urljoin h) = Exists \<Longrightarrow>
   parse_loop urljoin has_match b hrefs st = (st, [])"
  by (induction hrefs) (auto split: option.splits)

lemma parse_loop_no_links:
  "\<forall>h. Some h \<in> set hrefs \<longrightarrow> \<not> is_match_link h \<Longrightarrow>
   parse_loop urljoin has_match b hrefs st = (st, [])"
  by (induction hrefs) (auto split: option.splits)

lemma run_no_register:
  "\<forall>e \<in> set evs. \<forall>c. e \<noteq> Register b c \<Longrightarrow>
   pending_match_requests st b = None \<or> pending_match_requests st b = Some {} \<Longrightarrow>
   pending_match_requests (run fl evs st) b = pending_match_requests st b
   \<and> closings b (run fl evs st) = closings b st
   \<and> mark_writes b (run fl evs st) = mark_writes b st
   \<and> (b \<in> is_scraped (run fl evs st)) = (b \<in> is_scraped st)"
proof (induction evs arbitrary: st)
  case Nil
  then show ?case by simp
next
  case (Cons e evs)
  have p: "pending_match_requests (step fl e st) b = pending_match_requests st b"
  proof (cases e)
    case (Register u c)
    with Cons.prems(1) have "u \<noteq> b" by auto
    then show ?thesis by (simp add: Register track_pending)
  next
    case (Complete r u c)
    with Cons.prems(2) show ?thesis
      by (auto simp: details_pending)
  qed
  have k: "closings b (step fl e st) = closings b st
           \<and> mark_writes b (step fl e st) = mark_writes b st
           \<and> (b \<in> is_scraped (step fl e st)) = (b \<in> is_scraped st)"
    using Cons.prems(2)
    by (cases e)
       (auto simp: track_counts track_fields details_closings details_writes details_is_scraped)
  from Cons.prems have "\<forall>e \<in> set evs. \<forall>c. e \<noteq> Register b c" by simp
  from Cons.IH[OF this, of "step fl e st"] Cons.prems(2) p k show ?case
    by simp
qed

lemma run_flag_not_false:
  "start_url_meta st b \<noteq> Some (Some False) \<Longrightarrow>
   mark_writes b (run fl evs st) = mark_writes b st
   \<and> (b \<in> is_scraped (run fl evs st)) = (b \<in> is_scraped st)"
proof (induction evs arbitrary: st)
  case Nil
  show ?case by simp
next
  case (Cons e evs)
  have "mark_writes b (step fl e st) = mark_writes b st
        \<and> (b \<in> is_scraped (step fl e st)) = (b \<in> is_scraped st)"
    using Cons.prems
    by (cases e) (auto simp: track_counts track_fields details_writes details_is_scraped)
  with Cons.IH[of "step fl e st"] Cons.prems show ?case
    by (simp add: step_fields)
qed

subsection \<open>The claims about the tracker\<close>


lemma start_requests_example:
  "start_requests [(''s2023'', Some False), (''s2025'', Some True)] idle_spider =
     \<lparr>pending_match_requests = [''s2023'' \<mapsto> {}, ''s2025'' \<mapsto> {}],
      start_url_meta = [''s2023'' \<mapsto> Some False, ''s2025'' \<mapsto> Some True],
      cursor_conn = True, is_scraped = {}, journal = []\<rparr>"
  by (simp add: start_requests_def idle_spider_def)



text \<open>
  C2. In every run, a batch whose \<^verbatim>\<open>is_current_season\<close> flag is true never has the
  \<^verbatim>\<open>UPDATE\<close> that marks it scraped sent, and is never marked, whatever closes; a run
  that sends the mark for a batch does so only when the flag is false and the
  connection is there; and the call that closes a batch (it removes the last pending
  child) sends the mark exactly when the flag is false and the connection is there.
\<close>

theorem current_season_never_marked:
  "(start_url_meta st b = Some (Some True) \<longrightarrow>
      mark_writes b (run fl evs st) = mark_writes b st
      \<and> (b \<in> is_scraped (run fl evs st)) = (b \<in> is_scraped st))
   \<and> (mark_writes b (run fl evs st) \<noteq> mark_writes b st \<or> 
        (b \<in> is_scraped (run fl evs st)) \<noteq> (b \<in> is_scraped st) \<longrightarrow>
        start_url_meta st b = Some (Some False))
   \<and> (b \<noteq> [] \<and> c \<noteq> [] \<and> pending_match_requests st b = Some {c} \<longrightarrow>
        closings b (parse_match_details fl r (Some b) c st) = closings b st + 1
        \<and> mark_writes b (parse_match_details fl r (Some b) c st) =
            mark_writes b st
              + (if start_url_meta st b = Some (Some False) \<and> cursor_conn st then 1 else 0))"
proof (intro conjI impI)
  assume "start_url_meta st b = Some (Some True)"
  then have "start_url_meta st b \<noteq> Some (Some False)" by simp
  from run_flag_not_false[OF this]
  show "mark_writes b (run fl evs st) = mark_writes b st"
    and "(b \<in> is_scraped (run fl evs st)) = (b \<in> is_scraped st)"
    by simp_all
next
  assume "mark_writes b (run fl evs st) \<noteq> mark_writes b st \<or> 
        (b \<in> is_scraped (run fl evs st)) \<noteq> (b \<in> is_scraped st)"
  with run_flag_not_false[of st b fl evs]
  show "start_url_meta st b = Some (Some False)" by blast
next
  assume a: "b \<noteq> [] \<and> c \<noteq> [] \<and> pending_match_requests st b = Some {c}"
  then show "closings b (parse_match_details fl r (Some b) c st) = closings b st + 1"
    by (simp add: details_closings)
  from a show "mark_writes b (parse_match_details fl r (Some b) c st) =
            mark_writes b st
              + (if start_url_meta st b = Some (Some False) \<and> cursor_conn st then 1 else 0)"
    by (simp add: details_writes)
qed

theorem current_season_never_marked_witness:
  "start_url_meta (start_requests [(''s2023'', Some False), (''s2025'', Some True)] idle_spider)
      ''s2025'' = Some (Some True)
   \<and> closings ''s2025''
       (run (\<lambda>u. False) [Register ''s2025'' ''x'', Complete False ''s2025'' ''x'']
          (start_requests [(''s2023'', Some False), (''s2025'', Some True)] idle_spider)) = 1
   \<and> mark_writes ''s2025''
       (run (\<lambda>u. False) [Register ''s2025'' ''x'', Complete False ''s2025'' ''x'']
          (start_requests [(''s2023'', Some False), (''s2025'', Some True)] idle_spider)) = 0
   \<and> ''s2025'' \<notin> is_scraped
       (run (\<lambda>u. False) [Register ''s2025'' ''x'', Complete False ''s2025'' ''x'']
          (start_requests [(''s2023'', Some False), (''s2025'', Some True)] idle_spider))"
proof -
  let ?st = "start_requests [(''s2023'', Some False), (''s2025'', Some True)] idle_spider"
  let ?evs = "[Register ''s2025'' ''x'', Complete False ''s2025'' ''x'']"
  have m: "start_url_meta ?st ''s2025'' = Some (Some True)"
    by (simp add: start_requests_example)
  have z: "mark_writes ''s2025'' ?st = 0" "''s2025'' \<notin> is_scraped ?st"
    by (simp_all add: start_requests_example mark_writes_def)
  have k: "closings ''s2025'' (run (\<lambda>u. False) ?evs ?st) = 1"
    by (simp add: start_requests_example track_def parse_match_details_def
        completion_check_def mark_scraped_def logged_def closings_def)
  from current_season_never_marked[of ?st "''s2025''" "\<lambda>u. False" ?evs] m
  have "mark_writes ''s2025'' (run (\<lambda>u. False) ?evs ?st) = mark_writes ''s2025'' ?st"
    and "(''s2025'' \<in> is_scraped (run (\<lambda>u. False) ?evs ?st)) = (''s2025'' \<in> is_scraped ?st)"
    by blast+
  with m z k show ?thesis by simp
qed

text \<open>
  C10. The completion of a batch is announced only by a \<^verbatim>\<open>parse_match_details\<close> call
  that removes the last child of a non-empty pending set. So a batch that was opened
  and for which \<^verbatim>\<open>parse\<close> yields no request (no link container, no valid match link,
  or every match already in the store) is left with its empty pending set, and in a
  run that registers no child for it, whatever else happens, its completion is never
  announced, no durable mark is sent for it and it is not marked scraped.
\<close>

theorem childless_batch_never_closes:
  assumes "pending_match_requests st b = Some {}"
    and "parse urljoin has_match (Some b) containers st = (st', [])"
    and "\<forall>e \<in> set evs. \<forall>c. e \<noteq> Register b c"
  shows "st' = st
    \<and> pending_match_requests (run fl evs st') b = Some {}
    \<and> closings b (run fl evs st') = closings b st
    \<and> mark_writes b (run fl evs st') = mark_writes b st
    \<and> (b \<in> is_scraped (run fl evs st')) = (b \<in> is_scraped st)
    \<and> (\<forall>e s. closings b (step fl e s) \<noteq> closings b s \<longrightarrow>
          (\<exists>r c. e = Complete r b c \<and> pending_match_requests s b = Some {c}))"
proof -
  from parse_registers[OF assms(2), of fl] have eq: "st' = st" by simp
  from run_no_register[OF assms(3), of st fl] assms(1)
  have "pending_match_requests (run fl evs st) b = Some {}"
    and "closings b (run fl evs st) = closings b st"
    and "mark_writes b (run fl evs st) = mark_writes b st"
    and "(b \<in> is_scraped (run fl evs st)) = (b \<in> is_scraped st)"
    by simp_all
  moreover have "closings b (step fl e s) \<noteq> closings b s \<longrightarrow>
          (\<exists>r c. e = Complete r b c \<and> pending_match_requests s b = Some {c})" for e s
    by (cases e) (auto simp: track_counts details_closings)
  ultimately show ?thesis using eq by blast
qed

theorem childless_batch_never_closes_witness:
  "parse (\<lambda>h. ''https://ekstraliga.pl'' @ h)
      (\<lambda>u. if u = ''https://ekstraliga.pl/se/mecz/1234'' then Exists else Missing)
      (Some ''s2023'') [None, Some ''/en/se/news'', Some ''/se/mecz/1234'']
      (start_requests [(''s2023'', Some False), (''s2025'', Some True)] idle_spider)
     = (start_requests [(''s2023'', Some False), (''s2025'', Some True)] idle_spider, [])
   \<and> closings ''s2023''
       (run (\<lambda>u. False)
         [Register ''s2025'' ''x'', Complete False ''s2023'' ''y'', Complete False ''s2025'' ''x'']
         (start_requests [(''s2023'', Some False), (''s2025'', Some True)] idle_spider)) = 0
   \<and> mark_writes ''s2023''
       (run (\<lambda>u. False)
         [Register ''s2025'' ''x'', Complete False ''s2023'' ''y'', Complete False ''s2025'' ''x'']
         (start_requests [(''s2023'', Some False), (''s2025'', Some True)] idle_spider)) = 0
   \<and> ''s2023'' \<notin> is_scraped
       (run (\<lambda>u. False)
         [Register ''s2025'' ''x'', Complete False ''s2023'' ''y'', Complete False ''s2025'' ''x'']
         (start_requests [(''s2023'', Some False), (''s2025'', Some True)] idle_spider))"
proof -
  let ?st = "start_requests [(''s2023'', Some False), (''s2025'', Some True)] idle_spider"
  let ?evs = "[Register ''s2025'' ''x'', Complete False ''s2023'' ''y'',
               Complete False ''s2025'' ''x'']"
  have p: "parse (\<lambda>h. ''https://ekstraliga.pl'' @ h)
      (\<lambda>u. if u = ''https://ekstraliga.pl/se/mecz/1234'' then Exists else Missing)
      (Some ''s2023'') [None, Some ''/en/se/news'', Some ''/se/mecz/1234''] ?st = (?st, [])"
    by (simp add: start_requests_example parse_def is_match_link_def ends_with_match_def
        py_isdecimal_char_def)
  have o: "pending_match_requests ?st ''s2023'' = Some {}"
    "closings ''s2023'' ?st = 0" "mark_writes ''s2023'' ?st = 0" "''s2023'' \<notin> is_scraped ?st"
    by (simp_all add: start_requests_example closings_def mark_writes_def)
  have e: "\<forall>e \<in> set ?evs. \<forall>c. e \<noteq> Register ''s2023'' c" by simp
  from childless_batch_never_closes[OF o(1) p e, of "\<lambda>u. False"] o p show ?thesis
    by simp
qed

section \<open>Properties of the store\<close>

subsection \<open>Sequencing\<close>

lemma bnd_Inr:
  "(bnd m f s = Inr r) = (\<exists>x s'. m s = Inr (x, s') \<and> f x s' = Inr r)"
  by (auto simp: bnd_def split: sum.splits)


lemma lift_Inr: "(lift r s = Inr (x, s')) = (r = Inr x \<and> s' = s)"
  by (auto simp: lift_def split: sum.splits)

lemma ret_Inr: "(ret x s = Inr (y, s')) = (y = x \<and> s' = s)"
  by (auto simp: ret_def)


lemma seq_Inr: "(seq r f = Inr y) = (\<exists>x. r = Inr x \<and> f x = Inr y)"
  by (auto simp: seq_def split: sum.splits)


lemma not_null_Inr: "(not_null x s = Inr (y, s')) = (x = Some y \<and> s' = s)"
  by (auto simp: not_null_def ret_def raise_def split: option.splits)

subsection \<open>Tables\<close>

lemma find_key_None:
  "(find (\<lambda>(i, k', v). k' = k) rs = None) = (k \<notin> set (map (\<lambda>(i, k, v). k) rs))"
  by (induction rs) auto

lemma select_id_None: "(select_id k t = None) = (k \<notin> set (keys_of t))"
  by (simp add: select_id_def keys_of_def find_key_None)

lemma select_row_None: "(select_row k t = None) = (k \<notin> set (keys_of t))"
  by (simp add: select_row_def keys_of_def find_key_None)

lemma find_key_append:
  "find (\<lambda>(i, k', v). k' = k) (rs @ [(j, k, w)]) =
     (case find (\<lambda>(i, k', v). k' = k) rs of None \<Rightarrow> Some (j, k, w) | Some r \<Rightarrow> Some r)"
  by (induction rs) auto

lemma find_key_append_other:
  "k' \<noteq> k \<Longrightarrow>
   find (\<lambda>(i, k'', v). k'' = k) (rs @ [(j, k', w)]) = find (\<lambda>(i, k'', v). k'' = k) rs"
  by (induction rs) auto

lemma find_key_map_same:
  "find (\<lambda>(i, k', v). k' = k)
      (map (\<lambda>(i', k', v'). if k' = k then (i', k', w) else (i', k', v')) rs) =
   map_option (\<lambda>(i, k', v). (i, k', w)) (find (\<lambda>(i, k', v). k' = k) rs)"
  by (induction rs) auto

lemma find_key_map_other:
  "k' \<noteq> k \<Longrightarrow>
   find (\<lambda>(i, k'', v). k'' = k')
      (map (\<lambda>(i', k'', v'). if k'' = k then (i', k'', w) else (i', k'', v')) rs) =
   find (\<lambda>(i, k'', v). k'' = k') rs"
  by (induction rs) (auto split: if_splits)

lemma keys_map_update:
  "map (\<lambda>(i, k, v). k)
     (map (\<lambda>(i', k', v'). if k' = k then (i', k', w) else (i', k', v')) rs) =
   map (\<lambda>(i, k, v). k) rs"
  by (induction rs) auto

lemma upsert_absent:
  "k \<notin> set (keys_of t) \<Longrightarrow>
   upsert k v t = (Suc (serial t),
                   t\<lparr>rows := rows t @ [(Suc (serial t), k, v)], serial := Suc (serial t)\<rparr>)"
  using select_id_None[of k t] by (simp add: upsert_def)

lemma upsert_present:
  "k \<in> set (keys_of t) \<Longrightarrow>
   \<exists>i. select_id k t = Some i \<and>
       upsert k v t = (i, t\<lparr>rows := map (\<lambda>(i', k', v'). if k' = k then (i', k', v) else (i', k', v'))
                                      (rows t)\<rparr>)"
  using select_id_None[of k t] by (cases "select_id k t") (auto simp: upsert_def)

text \<open>An upsert leaves the keys alone when the key is there and appends it otherwise.\<close>

lemma keys_upsert:
  "keys_of (snd (upsert k v t)) = (if k \<in> set (keys_of t) then keys_of t else keys_of t @ [k])"
proof (cases "k \<in> set (keys_of t)")
  case False
  then show ?thesis
    by (simp add: upsert_absent keys_of_def)
next
  case True
  from upsert_present[OF this, of v] True show ?thesis
    by (auto simp: keys_of_def keys_map_update)
qed


lemma select_row_upsert_same:
  "\<exists>i. select_row k (snd (upsert k v t)) = Some (i, v) \<and> fst (upsert k v t) = i"
proof (cases "find (\<lambda>(i, k', v). k' = k) (rows t)")
  case None
  then show ?thesis
    by (simp add: upsert_def select_id_def select_row_def find_key_append)
next
  case (Some r)
  then show ?thesis
    by (cases r) (simp add: upsert_def select_id_def select_row_def find_key_map_same)
qed

lemma select_row_upsert_other:
  "k' \<noteq> k \<Longrightarrow> select_row k' (snd (upsert k v t)) = select_row k' t"
  by (cases "select_id k t")
     (auto simp: upsert_def select_row_def find_key_append_other find_key_map_other)

lemma select_id_upsert_other:
  "k' \<noteq> k \<Longrightarrow> select_id k' (snd (upsert k v t)) = select_id k' t"
  by (cases "select_id k t")
     (auto simp: upsert_def select_id_def find_key_append_other find_key_map_other)


lemma keys_upsert_each:
  "set (keys_of (snd (upsert_each kvs t))) = set (keys_of t) \<union> set (map fst kvs)"
proof (induction kvs arbitrary: t)
  case Nil
  show ?case by simp
next
  case (Cons kv kvs)
  obtain k v where kv: "kv = (k, v)" by (cases kv)
  obtain i t1 where u: "upsert k v t = (i, t1)" by (cases "upsert k v t")
  have "set (keys_of t1) = insert k (set (keys_of t))"
    using keys_upsert[of k v t] u by (auto split: if_splits)
  with Cons.IH[of t1] show ?case
    by (auto simp: kv u case_prod_beta)
qed



section \<open>Natural-key resolution\<close>

lemma pg_select:
  "execute_select pg_cursor t c v db =
     (if tx_failed db then Inl DatabaseError else Inr (select_id v (names db t), db))"
  by (simp add: pg_cursor_def stmt_def)

lemma pg_insert:
  "execute_insert pg_cursor t c v db =
     (if tx_failed db then Inl DatabaseError
      else Inr (fst (insert_do_nothing v () (names db t)),
                db\<lparr>names := (names db)(t := snd (insert_do_nothing v () (names db t)))\<rparr>))"
  by (simp add: pg_cursor_def stmt_def case_prod_beta)

lemma select_id_with_row:
  "k \<notin> set (keys_of t) \<Longrightarrow> select_id k (with_row k v t) = Some (Suc (serial t))"
  using find_key_None[of k "rows t"]
  by (simp add: with_row_def select_id_def keys_of_def find_key_append)

lemma get_or_create_id_pg:
  assumes "\<not> tx_failed db" and "strip v \<noteq> []"
  shows "get_or_create_id pg_cursor t c (JStr v) r db =
     (case select_id v (names db t) of
        Some i \<Rightarrow> Inr (Some i, db)
      | None \<Rightarrow> Inr (Some (Suc (serial (names db t))),
                     db\<lparr>names := (names db)(t := with_row v () (names db t))\<rparr>))"
proof (cases "select_id v (names db t)")
  case (Some i)
  with assms show ?thesis
    by (simp add: get_or_create_id_def bnd_def ret_def pg_select)
next
  case None
  then have "v \<notin> set (keys_of (names db t))" by (simp add: select_id_None)
  with assms None show ?thesis
    by (simp add: get_or_create_id_def bnd_def ret_def pg_select pg_insert
        insert_do_nothing_def with_row_def)
qed


text \<open>
  C5. On a store the session has to itself, resolving a non-blank natural key twice
  gives the same identifier both times; the second call changes nothing; the first
  leaves the table as it was when the key was there and adds exactly one row for the
  key otherwise; no other table changes; and a table with unique keys keeps them. A
  blank or absent key gives the absent identifier without any statement.
\<close>

theorem get_or_create_id_idempotent:
  assumes "\<not> tx_failed db" and "strip v \<noteq> []"
  shows "\<exists>i db1.
      get_or_create_id pg_cursor t c (JStr v) r db = Inr (Some i, db1)
    \<and> get_or_create_id pg_cursor t c (JStr v) r db1 = Inr (Some i, db1)
    \<and> select_id v (names db1 t) = Some i
    \<and> (if v \<in> set (keys_of (names db t)) then db1 = db
        else rows (names db1 t) = rows (names db t) @ [(i, v, ())])
    \<and> count_list (keys_of (names db1 t)) v = max 1 (count_list (keys_of (names db t)) v)
    \<and> (\<forall>t'. t' \<noteq> t \<longrightarrow> names db1 t' = names db t')
    \<and> (distinct (keys_of (names db t)) \<longrightarrow> distinct (keys_of (names db1 t)))
    \<and> \<not> tx_failed db1"
proof (cases "select_id v (names db t)")
  case (Some i)
  then have k: "v \<in> set (keys_of (names db t))" using select_id_None[of v "names db t"] by auto
  then have "count_list (keys_of (names db t)) v \<noteq> 0" by (simp add: count_list_0_iff)
  then have m: "max 1 (count_list (keys_of (names db t)) v) = count_list (keys_of (names db t)) v"
    by simp
  have g: "get_or_create_id pg_cursor t c (JStr v) r db = Inr (Some i, db)"
    using get_or_create_id_pg[OF assms, of t c r] Some by simp
  show ?thesis
    using g Some k m assms(1) by auto
next
  case None
  then have k: "v \<notin> set (keys_of (names db t))" by (simp add: select_id_None)
  let ?i = "Suc (serial (names db t))"
  let ?db1 = "db\<lparr>names := (names db)(t := with_row v () (names db t))\<rparr>"
  have g: "get_or_create_id pg_cursor t c (JStr v) r db = Inr (Some ?i, ?db1)"
    using get_or_create_id_pg[OF assms, of t c r] None by simp
  have s: "select_id v (names ?db1 t) = Some ?i"
    using select_id_with_row[OF k] by simp
  have f: "\<not> tx_failed ?db1" using assms(1) by simp
  have g2: "get_or_create_id pg_cursor t c (JStr v) r ?db1 = Inr (Some ?i, ?db1)"
    using get_or_create_id_pg[OF f assms(2), of t c r] s by simp
  have rw: "rows (names ?db1 t) = rows (names db t) @ [(?i, v, ())]"
    by (simp add: with_row_def)
  have ks: "keys_of (names ?db1 t) = keys_of (names db t) @ [v]"
    by (simp add: keys_of_def with_row_def)
  have c0: "count_list (keys_of (names db t)) v = 0" using k by (simp add: count_list_0_iff)
  have cnt: "count_list (keys_of (names ?db1 t)) v = max 1 (count_list (keys_of (names db t)) v)"
    unfolding ks using c0 by (simp add: count_list_snoc)
  have d: "distinct (keys_of (names db t)) \<longrightarrow> distinct (keys_of (names ?db1 t))"
    unfolding ks using k by simp
  have o: "\<forall>t'. t' \<noteq> t \<longrightarrow> names ?db1 t' = names db t'" by simp
  from g g2 s k rw cnt d o f show ?thesis
    by (intro exI[of _ ?i] exI[of _ ?db1]) (simp only: if_False simp_thms)
qed

theorem get_or_create_id_idempotent_witness:
  "\<not> tx_failed (empty_database :: string database) \<and> strip ''Arena'' \<noteq> []
   \<and> fst (projr (get_or_create_id pg_cursor ''arenas'' ''name'' (JStr ''Arena'') ''arena_id''
        (empty_database :: string database))) = Some 1
   \<and> rows (names (snd (projr (get_or_create_id pg_cursor ''arenas'' ''name'' (JStr ''Arena'')
        ''arena_id'' (empty_database :: string database)))) ''arenas'') = [(1, ''Arena'', ())]
   \<and> get_or_create_id pg_cursor ''arenas'' ''name'' (JStr ''Arena'') ''arena_id''
        (snd (projr (get_or_create_id pg_cursor ''arenas'' ''name'' (JStr ''Arena'')
           ''arena_id'' (empty_database :: string database))))
      = get_or_create_id pg_cursor ''arenas'' ''name'' (JStr ''Arena'') ''arena_id''
          (empty_database :: string database)"
proof -
  let ?db = "empty_database :: string database"
  have h: "\<not> tx_failed ?db" "strip ''Arena'' \<noteq> []"
    by (simp add: empty_database_def, code_simp)
  have e: "select_id ''Arena'' (names ?db ''arenas'') = None"
    by (simp add: empty_database_def empty_table_def select_id_def)
  have g: "get_or_create_id pg_cursor ''arenas'' ''name'' (JStr ''Arena'') ''arena_id'' ?db
        = Inr (Some 1, ?db\<lparr>names := (names ?db)(''arenas'' := with_row ''Arena'' () (names ?db ''arenas''))\<rparr>)"
    using get_or_create_id_pg[OF h, of "''arenas''" "''name''" "''arena_id''"] e
    by (simp add: empty_database_def empty_table_def)
  let ?d1 = "?db\<lparr>names := (names ?db)(''arenas'' := with_row ''Arena'' () (names ?db ''arenas''))\<rparr>"
  from get_or_create_id_idempotent[OF h, of "''arenas''" "''name''" "''arena_id''"]
  obtain i db1 where
    a: "get_or_create_id pg_cursor ''arenas'' ''name'' (JStr ''Arena'') ''arena_id'' ?db = Inr (Some i, db1)"
    and b: "get_or_create_id pg_cursor ''arenas'' ''name'' (JStr ''Arena'') ''arena_id'' db1 = Inr (Some i, db1)"
    by blast
  from a g have "i = 1" "db1 = ?d1" by simp_all
  with b have g2: "get_or_create_id pg_cursor ''arenas'' ''name'' (JStr ''Arena'') ''arena_id'' ?d1
      = Inr (Some 1, ?d1)" by simp
  have r: "rows (names ?d1 ''arenas'') = [(1, ''Arena'', ())]"
    by (simp add: with_row_def empty_database_def empty_table_def)
  show ?thesis
    unfolding g using h g2 r by simp
qed

section \<open>One transaction per document\<close>

lemma process_file_failed:
  "fst (process_file cursor env content c) \<noteq> Committed \<Longrightarrow>
   committed (snd (process_file cursor env content c)) = committed c
   \<and> working (snd (process_file cursor env content c)) = committed c"
  by (auto simp: process_file_def rollback_def commit_def
      split: file_content.splits sum.splits prod.splits)

lemma process_file_committed:
  "fst (process_file cursor env content c) = Committed \<Longrightarrow>
   \<exists>match_data db. content = Document match_data
     \<and> load_document cursor env match_data (working c) = Inr ((), db)
     \<and> committed (snd (process_file cursor env content c)) = db
     \<and> working (snd (process_file cursor env content c)) = db"
  by (auto simp: process_file_def rollback_def commit_def
      split: file_content.splits sum.splits prod.splits)

lemma process_file_raises:
  "load_document cursor env match_data (working c) = Inl e \<Longrightarrow>
   fst (process_file cursor env (Document match_data) c) = RolledBack e"
  by (simp add: process_file_def)

text \<open>
  C7. Whatever is raised while a document is loaded (the file cannot be opened or
  decoded, or any statement or any Python step of the load raises), the connection is
  rolled back: the committed database is the one before the file, and so is the
  database the next transaction starts from; the file stays in the input directory and
  nothing is added to the directory of processed files. When the load goes through,
  the committed database is the result of all its statements. A file is moved to the
  processed directory only when its load was committed.
\<close>

theorem load_is_atomic:
  "(fst (process_file cursor env content c) \<noteq> Committed \<longrightarrow>
      committed (snd (process_file cursor env content c)) = committed c
      \<and> working (snd (process_file cursor env content c)) = committed c
      \<and> input_dir (process_entry cursor env move_fails (name, content) (p\<lparr>conn := c\<rparr>)) = input_dir p
      \<and> processed_dir (process_entry cursor env move_fails (name, content) (p\<lparr>conn := c\<rparr>))
          = processed_dir p)
   \<and> (\<forall>match_data e. content = Document match_data
         \<and> load_document cursor env match_data (working c) = Inl e \<longrightarrow>
         fst (process_file cursor env content c) = RolledBack e)
   \<and> (fst (process_file cursor env content c) = Committed \<longrightarrow>
        (\<exists>match_data db. content = Document match_data
           \<and> load_document cursor env match_data (working c) = Inr ((), db)
           \<and> committed (snd (process_file cursor env content c)) = db))
   \<and> (processed_dir (process_entry cursor env move_fails (name, content) (p\<lparr>conn := c\<rparr>))
         \<noteq> processed_dir p \<longrightarrow>
        fst (process_file cursor env content c) = Committed \<and> \<not> move_fails name)"
proof (intro conjI impI allI)
  assume f: "fst (process_file cursor env content c) \<noteq> Committed"
  from process_file_failed[OF f]
  show "committed (snd (process_file cursor env content c)) = committed c"
    and "working (snd (process_file cursor env content c)) = committed c"
    by simp_all
  obtain out c' where r: "process_file cursor env content c = (out, c')"
    by (cases "process_file cursor env content c")
  with f have "out \<noteq> Committed" by simp
  then obtain e where "out = RolledBack e" by (cases out) auto
  with r show "input_dir (process_entry cursor env move_fails (name, content) (p\<lparr>conn := c\<rparr>))
      = input_dir p"
    and "processed_dir (process_entry cursor env move_fails (name, content) (p\<lparr>conn := c\<rparr>))
      = processed_dir p"
    by (simp_all add: process_entry_def)
next
  fix match_data e
  assume "content = Document match_data \<and> load_document cursor env match_data (working c) = Inl e"
  then show "fst (process_file cursor env content c) = RolledBack e"
    by (simp add: process_file_raises)
next
  assume "fst (process_file cursor env content c) = Committed"
  from process_file_committed[OF this]
  show "\<exists>match_data db. content = Document match_data
           \<and> load_document cursor env match_data (working c) = Inr ((), db)
           \<and> committed (snd (process_file cursor env content c)) = db"
    by blast
next
  assume m: "processed_dir (process_entry cursor env move_fails (name, content) (p\<lparr>conn := c\<rparr>))
         \<noteq> processed_dir p"
  obtain out c' where r: "process_file cursor env content c = (out, c')"
    by (cases "process_file cursor env content c")
  from m r show "fst (process_file cursor env content c) = Committed"
    by (cases out) (auto simp: process_entry_def split: if_splits)
  from m r show "\<not> move_fails name"
    by (cases out) (auto simp: process_entry_def split: if_splits)
qed

lemma broken_document_raises:
  "fst (process_file pg_cursor sample_env (Document broken_document) fresh_connection)
     = RolledBack AttributeError"
  by code_simp

theorem load_is_atomic_witness:
  "fst (process_file pg_cursor sample_env (Document broken_document) fresh_connection)
     = RolledBack AttributeError
   \<and> committed (snd (process_file pg_cursor sample_env (Document broken_document)
        fresh_connection)) = empty_database
   \<and> input_dir (process_entry pg_cursor sample_env (\<lambda>f. False)
        (''a.json'', Document broken_document)
        (fresh_pipeline [(''a.json'', Document broken_document)]))
       = [(''a.json'', Document broken_document)]
   \<and> processed_dir (process_entry pg_cursor sample_env (\<lambda>f. False)
        (''a.json'', Document broken_document)
        (fresh_pipeline [(''a.json'', Document broken_document)])) = []"
proof -
  have n: "fst (process_file pg_cursor sample_env (Document broken_document) fresh_connection)
      \<noteq> Committed"
    by (simp add: broken_document_raises)
  have p: "(fresh_pipeline [(''a.json'', Document broken_document)])\<lparr>conn := fresh_connection\<rparr>
      = fresh_pipeline [(''a.json'', Document broken_document)]"
    by (simp add: fresh_pipeline_def)
  note t = load_is_atomic[of pg_cursor sample_env "Document broken_document" fresh_connection
      "\<lambda>f. False" "''a.json''" "fresh_pipeline [(''a.json'', Document broken_document)]",
      unfolded p]
  from t n have
    "committed (snd (process_file pg_cursor sample_env (Document broken_document)
        fresh_connection)) = committed fresh_connection"
    and "input_dir (process_entry pg_cursor sample_env (\<lambda>f. False)
        (''a.json'', Document broken_document)
        (fresh_pipeline [(''a.json'', Document broken_document)]))
       = input_dir (fresh_pipeline [(''a.json'', Document broken_document)])"
    and "processed_dir (process_entry pg_cursor sample_env (\<lambda>f. False)
        (''a.json'', Document broken_document)
        (fresh_pipeline [(''a.json'', Document broken_document)]))
       = processed_dir (fresh_pipeline [(''a.json'', Document broken_document)])"
    by blast+
  moreover have "committed fresh_connection = (empty_database :: string database)"
    by (simp add: fresh_connection_def)
  moreover have "input_dir (fresh_pipeline [(''a.json'', Document broken_document)])
      = [(''a.json'', Document broken_document)]"
    "processed_dir (fresh_pipeline [(''a.json'', Document broken_document)]) = []"
    by (simp_all add: fresh_pipeline_def)
  ultimately show ?thesis
    using broken_document_raises by (simp only: simp_thms)
qed

section \<open>When resolution fails\<close>

lemma get_or_create_id_conflict:
  assumes "strip s \<noteq> []"
    and "execute_select cursor t c s db = Inr (None, db1)"
    and "execute_insert cursor t c s db1 = Inr (None, db2)"
    and "execute_select cursor t c s db2 = Inr (None, db3)"
  shows "get_or_create_id cursor t c (JStr s) r db = Inr (None, db3)"
  using assms by (simp add: get_or_create_id_def bnd_def)

lemma get_or_create_id_returns:
  assumes "execute_select cursor t c s db = Inr (x, db1)"
  shows "\<exists>y db'. get_or_create_id cursor t c (JStr s) r db = Inr (y, db')"
  using assms
  by (auto simp: get_or_create_id_def bnd_def ret_def split: option.splits sum.splits)

text \<open>
  C6, as the code has it. When the \<^verbatim>\<open>INSERT\<close> meets a conflict and the \<^verbatim>\<open>SELECT\<close> after it
  finds no row, \<^verbatim>\<open>get_or_create_id\<close> returns the absent identifier: nothing is raised.
  More generally, once its first \<^verbatim>\<open>SELECT\<close> has gone through it always returns. The
  caller goes on with the absent identifier; for a rider, the name is left out of
  \<^verbatim>\<open>rider_name_to_id\<close> and the loop continues.
\<close>

theorem resolution_failure_returns_none:
  assumes "strip s \<noteq> []"
    and "execute_select cursor t c s db = Inr (None, db1)"
    and "execute_insert cursor t c s db1 = Inr (None, db2)"
    and "execute_select cursor t c s db2 = Inr (None, db3)"
  shows "get_or_create_id cursor t c (JStr s) r db = Inr (None, db3)
    \<and> (\<forall>x d d1. execute_select cursor t c s d = Inr (x, d1) \<longrightarrow>
          (\<exists>y d'. get_or_create_id cursor t c (JStr s) r d = Inr (y, d')))
    \<and> (t = ''riders'' \<and> c = ''name'' \<and> get rider_data ''name'' = Inr (JStr s) \<longrightarrow>
          resolve_rider cursor rider_data m db = Inr (m, db3))"
proof (intro conjI allI impI)
  show g: "get_or_create_id cursor t c (JStr s) r db = Inr (None, db3)"
    using assms by (rule get_or_create_id_conflict)
  fix x d d1
  assume "execute_select cursor t c s d = Inr (x, d1)"
  then show "\<exists>y d'. get_or_create_id cursor t c (JStr s) r d = Inr (y, d')"
    by (rule get_or_create_id_returns)
next
  assume a: "t = ''riders'' \<and> c = ''name'' \<and> get rider_data ''name'' = Inr (JStr s)"
  have ne: "s \<noteq> []" using assms(1) by (auto simp: strip_def)
  have "get_or_create_id cursor ''riders'' ''name'' (JStr s) ''rider_id'' db = Inr (None, db3)"
    using get_or_create_id_conflict[OF assms(1), of cursor "''riders''" "''name''" db db1 db2 db3]
      assms(2,3,4) a by simp
  with a ne assms(1) show "resolve_rider cursor rider_data m db = Inr (m, db3)"
    by (simp add: resolve_rider_def bnd_def lift_def ret_def as_str_def)
qed

theorem resolution_failure_returns_none_witness:
  "strip ''Jan Kowal'' \<noteq> []
   \<and> get_or_create_id racy_cursor ''riders'' ''name'' (JStr ''Jan Kowal'') ''rider_id''
        (empty_database :: string database) = Inr (None, empty_database)
   \<and> resolve_rider racy_cursor (rider_entry ''9'' ''Jan Kowal'' ''3'') Map.empty
        (empty_database :: string database) = Inr (Map.empty, empty_database)"
proof -
  let ?db = "empty_database :: string database"
  have s: "strip ''Jan Kowal'' \<noteq> []" by code_simp
  have e: "execute_select racy_cursor ''riders'' ''name'' ''Jan Kowal'' ?db = Inr (None, ?db)"
    "execute_insert racy_cursor ''riders'' ''name'' ''Jan Kowal'' ?db = Inr (None, ?db)"
    by (simp_all add: racy_cursor_def stmt_def empty_database_def)
  have g: "get (rider_entry ''9'' ''Jan Kowal'' ''3'') ''name'' = Inr (JStr ''Jan Kowal'')"
    by (simp add: rider_entry_def get_def get_default_def)
  from resolution_failure_returns_none[OF s e(1) e(2) e(1),
      of "''rider_id''" "rider_entry ''9'' ''Jan Kowal'' ''3''" Map.empty] g s
  show ?thesis by simp
qed

text \<open>
  The claim as stated fails: with every resolution of a name failing in this way, the
  sample document is loaded and committed all the same; its match row refers to no
  arena, and its riders have neither statistics nor heat rows.
\<close>

theorem failed_resolution_commits:
  "map_sum id fst (get_or_create_id racy_cursor ''arenas'' ''name'' (JStr ''Arena'') ''arena_id''
      (working fresh_connection)) = Inr None
   \<and> fst (process_file racy_cursor sample_env (Document sample_document) fresh_connection)
       = Committed
   \<and> stored_arenas (committed (snd (process_file racy_cursor sample_env
        (Document sample_document) fresh_connection))) = [None]
   \<and> row_counts (committed (snd (process_file racy_cursor sample_env
        (Document sample_document) fresh_connection))) = [1, 2, 0, 2, 0]"
  by code_simp

section \<open>Telemetry of a heat participant\<close>












section \<open>Heat sequence numbers\<close>

lemma upsert_heat_Inr:
  "upsert_heat k cols db = Inr (i, db') \<Longrightarrow>
   \<not> tx_failed db \<and> db' = db\<lparr>heats := snd (upsert k cols (heats db))\<rparr>
   \<and> i = fst (upsert k cols (heats db))"
  by (auto simp: upsert_heat_def stmt_def case_prod_beta split: if_splits)

lemma upsert_participants_Inr:
  "upsert_participants kvs db = Inr (u, db') \<Longrightarrow>
   \<not> tx_failed db \<and> distinct (map fst kvs)
   \<and> db' = db\<lparr>heat_participants := snd (upsert_each kvs (heat_participants db))\<rparr>"
  by (auto simp: upsert_participants_def stmt_def upsert_many_def case_prod_beta
      split: if_splits)

text \<open>One pass of the loop body: the counter goes up by one in every case; a heat with
  a label is upserted under the new counter value, a heat without leaves the database
  as it is.\<close>

lemma process_heat_effect:
  assumes "process_heat env md rm sm m heat c db = Inr (n, db')"
  shows "n = c + 1
    \<and> (if labelled heat
        then \<exists>s cols. get heat ''heat_number'' = Inr (JStr s)
               \<and> heat_row heat (JStr s) = Inr cols \<and> heat_display_number cols = s
               \<and> heats db' = snd (upsert (m, c + 1) cols (heats db))
        else db' = db)
    \<and> matches db' = matches db \<and> match_team_info db' = match_team_info db
    \<and> match_rider_stats db' = match_rider_stats db \<and> names db' = names db
    \<and> teams db' = teams db \<and> teams_serial db' = teams_serial db
    \<and> tx_failed db' = tx_failed db"
proof -
  from assms obtain label where g: "get heat ''heat_number'' = Inr label"
    by (auto simp: process_heat_def bnd_Inr lift_Inr)
  show ?thesis
  proof (cases "truthy label")
    case False
    with assms g show ?thesis
      by (simp add: process_heat_def bnd_def lift_def ret_def labelled_def)
  next
    case True
    with assms g obtain cols hid db1 rows where
      c: "heat_row heat label = Inr cols"
      and u: "upsert_heat (m, c + 1) cols db = Inr (hid, db1)"
      and p: "(if rows \<noteq> [] then upsert_participants rows else ret ()) db1 = Inr ((), db')"
      and n: "n = c + 1"
      by (auto simp: process_heat_def bnd_Inr lift_Inr ret_Inr)
    from c obtain s where l: "label = JStr s" and d: "heat_display_number cols = s"
      by (cases label) (auto simp: heat_row_def seq_Inr sql_text_def)
    note u' = upsert_heat_Inr[OF u]
    have "db' = db1 \<or> db' = db1\<lparr>heat_participants := snd (upsert_each rows (heat_participants db1))\<rparr>"
      using p by (auto simp: ret_Inr dest: upsert_participants_Inr split: if_splits)
    with u' g l c d n True show ?thesis
      by (auto simp: labelled_def)
  qed
qed

lemma for_each_process_heat:
  "for_each (process_heat env md rm sm m) hs c db = Inr (n, db') \<Longrightarrow>
   n = c + int (length hs)
   \<and> (\<forall>i < length hs.
        if labelled (hs ! i)
        then \<exists>hid cols. select_row (m, c + int i + 1) (heats db') = Some (hid, cols)
               \<and> get (hs ! i) ''heat_number'' = Inr (JStr (heat_display_number cols))
        else select_row (m, c + int i + 1) (heats db') = select_row (m, c + int i + 1) (heats db))
   \<and> (\<forall>k. (\<forall>i < length hs. labelled (hs ! i) \<longrightarrow> k \<noteq> (m, c + int i + 1)) \<longrightarrow>
          select_row k (heats db') = select_row k (heats db))
   \<and> matches db' = matches db \<and> match_team_info db' = match_team_info db
   \<and> match_rider_stats db' = match_rider_stats db \<and> names db' = names db
   \<and> teams db' = teams db \<and> teams_serial db' = teams_serial db
   \<and> tx_failed db' = tx_failed db"
proof (induction hs arbitrary: c db)
  case Nil
  then show ?case by (simp add: ret_Inr)
next
  case (Cons heat hs)
  from Cons.prems obtain c1 db1 where
    h: "process_heat env md rm sm m heat c db = Inr (c1, db1)"
    and t: "for_each (process_heat env md rm sm m) hs c1 db1 = Inr (n, db')"
    by (auto split: sum.splits)
  note eff = process_heat_effect[OF h]
  then have c1: "c1 = c + 1" by simp
  note ih = Cons.IH[OF t]
  have frame: "select_row k (heats db1) = select_row k (heats db)"
    if "labelled heat \<longrightarrow> k \<noteq> (m, c + 1)" for k
  proof (cases "labelled heat")
    case False
    with eff show ?thesis by simp
  next
    case True
    with eff that show ?thesis
      by (auto simp: select_row_upsert_other)
  qed
  have head: "if labelled heat
        then \<exists>hid cols. select_row (m, c + 1) (heats db') = Some (hid, cols)
               \<and> get heat ''heat_number'' = Inr (JStr (heat_display_number cols))
        else select_row (m, c + 1) (heats db') = select_row (m, c + 1) (heats db)"
  proof -
    have untouched: "select_row (m, c + 1) (heats db') = select_row (m, c + 1) (heats db1)"
      using ih c1 by simp
    show ?thesis
    proof (cases "labelled heat")
      case False
      with eff untouched show ?thesis by simp
    next
      case True
      with eff obtain s cols where g: "get heat ''heat_number'' = Inr (JStr s)"
        and r: "heat_row heat (JStr s) = Inr cols"
        and d: "heat_display_number cols = s"
        and u: "heats db1 = snd (upsert (m, c + 1) cols (heats db))"
        by auto
      from select_row_upsert_same[of "(m, c + 1)" cols "heats db"] u untouched
      obtain i where "select_row (m, c + 1) (heats db') = Some (i, cols)" by auto
      with True g d show ?thesis by auto
    qed
  qed
  have pos: "if labelled ((heat # hs) ! i)
        then \<exists>hid cols. select_row (m, c + int i + 1) (heats db') = Some (hid, cols)
               \<and> get ((heat # hs) ! i) ''heat_number'' = Inr (JStr (heat_display_number cols))
        else select_row (m, c + int i + 1) (heats db')
               = select_row (m, c + int i + 1) (heats db)"
    if i: "i < length (heat # hs)" for i
  proof (cases i)
    case 0
    with head show ?thesis by simp
  next
    case (Suc j)
    with i have j: "j < length hs" by simp
    have e: "c1 + int j + 1 = c + int i + 1" using c1 Suc by simp
    from ih j have "if labelled (hs ! j)
        then \<exists>hid cols. select_row (m, c1 + int j + 1) (heats db') = Some (hid, cols)
               \<and> get (hs ! j) ''heat_number'' = Inr (JStr (heat_display_number cols))
        else select_row (m, c1 + int j + 1) (heats db')
               = select_row (m, c1 + int j + 1) (heats db1)"
      by blast
    moreover have "select_row (m, c1 + int j + 1) (heats db1)
        = select_row (m, c1 + int j + 1) (heats db)"
      using frame[of "(m, c1 + int j + 1)"] c1 by simp
    ultimately show ?thesis
      unfolding e using Suc by (auto split: if_splits)
  qed
  have rest: "select_row k (heats db') = select_row k (heats db)"
    if k: "\<forall>i < length (heat # hs). labelled ((heat # hs) ! i) \<longrightarrow> k \<noteq> (m, c + int i + 1)" for k
  proof -
    from k have k0: "labelled heat \<longrightarrow> k \<noteq> (m, c + 1)" by force
    have "\<forall>j < length hs. labelled (hs ! j) \<longrightarrow> k \<noteq> (m, c1 + int j + 1)"
    proof (intro allI impI)
      fix j assume j: "j < length hs" and l: "labelled (hs ! j)"
      from k[rule_format, of "Suc j"] j l have "k \<noteq> (m, c + int (Suc j) + 1)" by simp
      then show "k \<noteq> (m, c1 + int j + 1)" using c1 by simp
    qed
    with ih have "select_row k (heats db') = select_row k (heats db1)" by blast
    with frame[OF k0] show ?thesis by simp
  qed
  from ih c1 eff have others: "n = c + int (length (heat # hs))"
    "matches db' = matches db" "match_team_info db' = match_team_info db"
    "match_rider_stats db' = match_rider_stats db" "names db' = names db"
    "teams db' = teams db" "teams_serial db' = teams_serial db" "tx_failed db' = tx_failed db"
    by simp_all
  from others pos rest show ?case by blast
qed

text \<open>
  C3, as the code has it. A heat object without a label produces no heat row. The
  counter is incremented for every heat object before the label is looked at, so a
  heat with a label is stored under its position in the document's heat list, counted
  from 1, whether or not heats before it were skipped: a skipped heat uses up its
  number. No other row of the heat table is touched.
\<close>

theorem heat_sequence_is_position:
  assumes "process_heats env md rm sm m db = Inr ((), db')"
    and "get md ''match_details'' = Inr (JArr hs)"
  shows "(\<forall>i < length hs.
        if labelled (hs ! i)
        then \<exists>hid cols. select_row (m, int i + 1) (heats db') = Some (hid, cols)
               \<and> get (hs ! i) ''heat_number'' = Inr (JStr (heat_display_number cols))
        else select_row (m, int i + 1) (heats db') = select_row (m, int i + 1) (heats db))
    \<and> (\<forall>k. (\<forall>i < length hs. labelled (hs ! i) \<longrightarrow> k \<noteq> (m, int i + 1)) \<longrightarrow>
          select_row k (heats db') = select_row k (heats db))
    \<and> set (keys_of (heats db')) =
        set (keys_of (heats db)) \<union> {(m, int i + 1) | i. i < length hs \<and> labelled (hs ! i)}"
proof -
  have loop: "\<exists>n. for_each (process_heat env md rm sm m) hs 0 db = Inr (n, db')"
  proof (cases "hs = []")
    case True
    with assms show ?thesis
      by (simp add: process_heats_def bnd_def lift_def ret_def)
  next
    case False
    with assms show ?thesis
      by (auto simp: process_heats_def bnd_Inr lift_Inr ret_Inr iterate_def)
  qed
  then obtain n where "for_each (process_heat env md rm sm m) hs 0 db = Inr (n, db')" ..
  note l = for_each_process_heat[OF this, unfolded add_0]
  from l have a: "\<forall>i < length hs.
        if labelled (hs ! i)
        then \<exists>hid cols. select_row (m, int i + 1) (heats db') = Some (hid, cols)
               \<and> get (hs ! i) ''heat_number'' = Inr (JStr (heat_display_number cols))
        else select_row (m, int i + 1) (heats db') = select_row (m, int i + 1) (heats db)"
    by blast
  from l have b: "\<forall>k. (\<forall>i < length hs. labelled (hs ! i) \<longrightarrow> k \<noteq> (m, int i + 1)) \<longrightarrow>
          select_row k (heats db') = select_row k (heats db)"
    by blast
  have c: "set (keys_of (heats db')) =
        set (keys_of (heats db)) \<union> {(m, int i + 1) | i. i < length hs \<and> labelled (hs ! i)}"
  proof (intro set_eqI)
    fix k
    show "(k \<in> set (keys_of (heats db'))) =
        (k \<in> set (keys_of (heats db)) \<union> {(m, int i + 1) | i. i < length hs \<and> labelled (hs ! i)})"
    proof (cases "\<exists>i < length hs. labelled (hs ! i) \<and> k = (m, int i + 1)")
      case True
      then obtain i where i: "i < length hs" "labelled (hs ! i)" "k = (m, int i + 1)" by blast
      from a i(1) i(2) have "\<exists>hid cols. select_row (m, int i + 1) (heats db') = Some (hid, cols)
          \<and> get (hs ! i) ''heat_number'' = Inr (JStr (heat_display_number cols))"
        by (metis (no_types, lifting))
      with i(3) have "select_row k (heats db') \<noteq> None" by auto
      then have "k \<in> set (keys_of (heats db'))" by (simp add: select_row_None)
      with i show ?thesis by auto
    next
      case False
      with b have "select_row k (heats db') = select_row k (heats db)" by blast
      then have "(k \<in> set (keys_of (heats db'))) = (k \<in> set (keys_of (heats db)))"
        using select_row_None[of k "heats db'"] select_row_None[of k "heats db"] by simp
      with False show ?thesis by auto
    qed
  qed
  from a b c show ?thesis by blast
qed

lemma sample_heats_loaded:
  "isl (process_heats sample_env sample_document sample_names sample_stats 1
          (empty_database :: string database)) = False"
  by code_simp

theorem heat_sequence_is_position_witness:
  "get sample_document ''match_details'' = Inr (JArr sample_heats)
   \<and> labelled (sample_heats ! 0) \<and> \<not> labelled (sample_heats ! 1) \<and> labelled (sample_heats ! 2)
   \<and> select_row (1, 2)
       (heats (snd (projr (process_heats sample_env sample_document sample_names sample_stats 1
          (empty_database :: string database))))) = None
   \<and> set (keys_of
       (heats (snd (projr (process_heats sample_env sample_document sample_names sample_stats 1
          (empty_database :: string database)))))) = {(1, 1), (1, 3)}"
proof -
  let ?r = "process_heats sample_env sample_document sample_names sample_stats 1
          (empty_database :: string database)"
  have r: "?r = Inr ((), snd (projr ?r))"
    using sample_heats_loaded by (cases ?r) auto
  have g: "get sample_document ''match_details'' = Inr (JArr sample_heats)"
    by code_simp
  have l: "labelled (sample_heats ! 0)" "\<not> labelled (sample_heats ! 1)"
    "labelled (sample_heats ! 2)" "length sample_heats = 3"
    by code_simp+
  have e: "keys_of (heats (empty_database :: string database)) = []"
    "select_row (1, 2) (heats (empty_database :: string database)) = None"
    by (simp_all add: empty_database_def empty_table_def keys_of_def select_row_def)
  note t = heat_sequence_is_position[OF r g]
  have one: "(1::nat) < length sample_heats" using l(4) by simp
  from t one l(2) have "select_row (1, int 1 + 1) (heats (snd (projr ?r)))
      = select_row (1, int 1 + 1) (heats (empty_database :: string database))"
    by (metis (no_types, lifting))
  with e have s: "select_row (1, 2) (heats (snd (projr ?r))) = None" by simp
  have idx: "(i < length sample_heats \<and> labelled (sample_heats ! i)) = (i = 0 \<or> i = 2)" for i
  proof -
    have "i = 0 \<or> i = 1 \<or> i = 2 \<or> 3 \<le> i" by arith
    then show ?thesis using l by (elim disjE) auto
  qed
  have "{(1::nat, int i + 1) | i. i < length sample_heats \<and> labelled (sample_heats ! i)}
      = {(1, 1), (1, 3)}"
    unfolding idx by auto
  with t e have k: "set (keys_of (heats (snd (projr ?r)))) = {(1, 1), (1, 3)}" by simp
  from g l s k show ?thesis by simp
qed

text \<open>
  The claim as stated fails on the numbering: the sample document has three heat
  objects, the second without a label; its heats are stored under the sequence numbers
  1 and 3, not 1 and 2.
\<close>

theorem heat_sequence_gap_counterexample:
  "fst (process_file pg_cursor sample_env (Document sample_document) fresh_connection)
     = Committed
   \<and> heat_sequences (committed (snd (process_file pg_cursor sample_env
        (Document sample_document) fresh_connection))) = [(1, 1), (1, 3)]"
  by code_simp

section \<open>Loading a document again\<close>

subsection \<open>Steps that keep a property\<close>









subsection \<open>The lookup tables leave the match tables alone\<close>







subsection \<open>What the sections of a load write\<close>











subsection \<open>Upserts\<close>

lemma select_id_row: "select_id k t = map_option fst (select_row k t)"
  by (cases "find (\<lambda>(i, k', v). k' = k) (rows t)") (auto simp: select_id_def select_row_def)





lemma select_id_upsert_kept:
  assumes "select_id k t = Some i"
  shows "select_id k (snd (upsert k' v t)) = Some i"
proof (cases "k' = k")
  case False
  then have "k \<noteq> k'" by simp
  from select_id_upsert_other[OF this, of v t] assms show ?thesis by simp
next
  case True
  from assms have "k \<in> set (keys_of t)" using select_id_None[of k t] by auto
  from upsert_present[OF this, of v] assms have f: "fst (upsert k v t) = i" by auto
  from select_row_upsert_same[of k v t] f True show ?thesis by (auto simp: select_id_row)
qed

lemma select_id_upsert_each_kept:
  "select_id k t = Some i \<Longrightarrow> select_id k (snd (upsert_each kvs t)) = Some i"
proof (induction kvs arbitrary: t)
  case Nil
  then show ?case by simp
next
  case (Cons kv kvs)
  obtain k0 v0 where kv: "kv = (k0, v0)" by (cases kv)
  from Cons.IH[OF select_id_upsert_kept[OF Cons.prems, of k0 v0]] show ?case
    by (simp add: kv case_prod_beta)
qed

subsection \<open>A whole load\<close>




subsection \<open>The rows a load stores\<close>











subsection \<open>Loading the same match again\<close>



end
